theory Spec2Isabelle
  imports Complex_Main
begin

section \<open>Magnetizability tensor for UHF: \<^verbatim>\<open>pyscf/prop/magnetizability/uhf.py\<close>\<close>

text \<open>
  The module is a composition layer: it selects occupied orbitals, forms density matrices,
  calls the integral engine, the perturbed Fock and overlap builders and the response
  solver, and contracts what they return. The model keeps that structure.

  \<^item> Arrays are nested lists by rank (a vector, a matrix as a list of rows, a rank-3 array
    as a list of matrices). Their entries are exact complex numbers; orbital energies
    and occupation numbers are reals. Rounding of the machine arithmetic is not modelled.
  \<^item> A numpy operation applied to operands whose axes do not match raises; the model
    returns \<open>Inl\<close> of the exception. Broadcasting of a length-one axis against a longer
    one is not modelled: such operands are rejected as mismatched.
  \<^item> Code outside the file (the restricted-HF module, the NMR module, the integral
    engine, the logger and the clock) is a parameter: a record of functions that take
    the state of the world, return a value or an exception, and leave a new world.
\<close>

subsection \<open>Exceptions and effects\<close>

datatype error = IndexError | ValueError | Raised string

type_synonym ('w, 'a) eff = "'w \<Rightarrow> (error + 'a) \<times> 'w"

definition ret :: "'a \<Rightarrow> ('w, 'a) eff" where
  "ret x = (\<lambda>w. (Inr x, w))"

definition liftP :: "error + 'a \<Rightarrow> ('w, 'a) eff" where
  \<comment> \<open>a computation without effects: its exception, if any, leaves the world as it is\<close>
  "liftP r = (\<lambda>w. (r, w))"

definition bindE :: "('w, 'a) eff \<Rightarrow> ('a \<Rightarrow> ('w, 'b) eff) \<Rightarrow> ('w, 'b) eff" where
  \<comment> \<open>sequencing; an exception of the first computation ends the whole\<close>
  "bindE m f = (\<lambda>w. case m w of (Inl e, w') \<Rightarrow> (Inl e, w') | (Inr x, w') \<Rightarrow> f x w')"

definition bindP :: "error + 'a \<Rightarrow> ('a \<Rightarrow> error + 'b) \<Rightarrow> error + 'b" where
  "bindP r f = (case r of Inl e \<Rightarrow> Inl e | Inr x \<Rightarrow> f x)"

subsection \<open>Arrays\<close>

type_synonym vec = "complex list"
type_synonym mat = "complex list list"
type_synonym ten3 = "complex list list list"

definition is_mat :: "nat \<Rightarrow> nat \<Rightarrow> 'a list list \<Rightarrow> bool" where
  "is_mat n m A = (length A = n \<and> list_all (\<lambda>r. length r = m) A)"

definition is_ten3 :: "nat \<Rightarrow> nat \<Rightarrow> nat \<Rightarrow> 'a list list list \<Rightarrow> bool" where
  "is_ten3 k n m T = (length T = k \<and> list_all (is_mat n m) T)"

definition ncols :: "'a list list \<Rightarrow> nat" where
  "ncols A = (case A of [] \<Rightarrow> 0 | r # _ \<Rightarrow> length r)"

definition sumn :: "nat \<Rightarrow> (nat \<Rightarrow> complex) \<Rightarrow> complex" where
  \<comment> \<open>the sum over an index range \<open>0, ..., n - 1\<close>\<close>
  "sumn n f = sum_list (map f [0..<n])"

definition occupied :: "real list \<Rightarrow> bool list" where
  \<comment> \<open>\<^verbatim>\<open>mo_occ > 0\<close>\<close>
  "occupied occ = map (\<lambda>x. x > 0) occ"

definition pick :: "'a list \<Rightarrow> bool list \<Rightarrow> 'a list" where
  \<comment> \<open>the entries of a list at the positions where the mask holds\<close>
  "pick xs msk = map fst (filter snd (zip xs msk))"

definition vmask :: "'a list \<Rightarrow> bool list \<Rightarrow> error + 'a list" where
  \<comment> \<open>\<^verbatim>\<open>v[mask]\<close>: a boolean index must be as long as the axis it indexes\<close>
  "vmask v msk = (if length v = length msk then Inr (pick v msk) else Inl IndexError)"

definition colmask :: "mat \<Rightarrow> bool list \<Rightarrow> error + mat" where
  \<comment> \<open>\<^verbatim>\<open>A[:,mask]\<close>\<close>
  "colmask A msk =
     (if list_all (\<lambda>r. length r = length msk) A
      then Inr (map (\<lambda>r. pick r msk) A) else Inl IndexError)"

definition colmask3 :: "ten3 \<Rightarrow> bool list \<Rightarrow> error + ten3" where
  \<comment> \<open>\<^verbatim>\<open>T[:,mask]\<close> on a rank-3 array: the mask selects along the second axis\<close>
  "colmask3 T msk =
     (if list_all (\<lambda>A. length A = length msk) T
      then Inr (map (\<lambda>A. pick A msk) T) else Inl IndexError)"

definition dotv :: "vec \<Rightarrow> vec \<Rightarrow> complex" where
  "dotv a b = sumn (length a) (\<lambda>k. a ! k * b ! k)"

definition dot_T :: "mat \<Rightarrow> mat \<Rightarrow> error + mat" where
  \<comment> \<open>\<^verbatim>\<open>numpy.dot(A, B.T)\<close>: entry \<open>(i, j)\<close> is the product of row \<open>i\<close> of \<open>A\<close> and row \<open>j\<close> of \<open>B\<close>\<close>
  "dot_T A B =
     (if is_mat (length A) (ncols A) A \<and> is_mat (length B) (ncols A) B
      then Inr (map (\<lambda>a. map (\<lambda>b. dotv a b) B) A) else Inl ValueError)"

definition vadd :: "vec \<Rightarrow> vec \<Rightarrow> error + vec" where
  "vadd a b = (if length a = length b then Inr (map2 (+) a b) else Inl ValueError)"

definition vsub :: "vec \<Rightarrow> vec \<Rightarrow> error + vec" where
  "vsub a b = (if length a = length b then Inr (map2 (-) a b) else Inl ValueError)"

definition vscale :: "vec \<Rightarrow> complex \<Rightarrow> vec" where
  "vscale a c = map (\<lambda>x. x * c) a"

definition same_shape :: "mat \<Rightarrow> mat \<Rightarrow> bool" where
  "same_shape A B = (is_mat (length A) (ncols A) A \<and> is_mat (length A) (ncols A) B)"

definition madd :: "mat \<Rightarrow> mat \<Rightarrow> error + mat" where
  "madd A B = (if same_shape A B then Inr (map2 (map2 (+)) A B) else Inl ValueError)"

definition msub :: "mat \<Rightarrow> mat \<Rightarrow> error + mat" where
  "msub A B = (if same_shape A B then Inr (map2 (map2 (-)) A B) else Inl ValueError)"

definition mneg :: "mat \<Rightarrow> mat" where
  "mneg A = map (map uminus) A"

definition mconj :: "mat \<Rightarrow> mat" where
  "mconj A = map (map cnj) A"

definition scale_cols :: "mat \<Rightarrow> real list \<Rightarrow> error + mat" where
  \<comment> \<open>\<^verbatim>\<open>A * e\<close> for a matrix and a vector: column \<open>k\<close> is multiplied by \<open>e[k]\<close>\<close>
  "scale_cols A e =
     (if list_all (\<lambda>r. length r = length e) A
      then Inr (map (\<lambda>r. map2 (\<lambda>x y. x * complex_of_real y) r e) A) else Inl ValueError)"

definition ravel :: "mat \<Rightarrow> vec" where
  "ravel A = concat A"

definition reshape33 :: "vec \<Rightarrow> error + mat" where
  \<comment> \<open>\<^verbatim>\<open>e2.reshape(3, 3)\<close>: nine entries, row by row, or ValueError\<close>
  "reshape33 v =
     (if length v = 9
      then Inr [[v ! 0, v ! 1, v ! 2], [v ! 3, v ! 4, v ! 5], [v ! 6, v ! 7, v ! 8]]
      else Inl ValueError)"

definition item :: "'a list \<Rightarrow> nat \<Rightarrow> error + 'a" where
  \<comment> \<open>\<^verbatim>\<open>vs[i]\<close> for a non-negative literal index\<close>
  "item xs i = (if i < length xs then Inr (xs ! i) else Inl IndexError)"

subsection \<open>Contractions\<close>

definition einsum_xpq_qp :: "ten3 \<Rightarrow> mat \<Rightarrow> error + vec" where
  \<comment> \<open>\<^verbatim>\<open>numpy.einsum('xpq,qp->x', v, d)\<close>\<close>
  "einsum_xpq_qp v d =
     (let Q = length d; P = ncols d in
      if is_mat Q P d \<and> is_ten3 (length v) P Q v
      then Inr (map (\<lambda>vx. sumn P (\<lambda>p. sumn Q (\<lambda>q. vx ! p ! q * d ! q ! p))) v)
      else Inl ValueError)"

definition lib_einsum_xpq_pi_qj :: "ten3 \<Rightarrow> mat \<Rightarrow> mat \<Rightarrow> error + ten3" where
  \<comment> \<open>\<^verbatim>\<open>lib.einsum('xpq,pi,qj->xij', h, c, o)\<close>\<close>
  "lib_einsum_xpq_pi_qj h c o' =
     (let P = length c; I = ncols c; Q = length o'; J = ncols o' in
      if is_mat P I c \<and> is_mat Q J o' \<and> is_ten3 (length h) P Q h
      then Inr (map (\<lambda>hx. map (\<lambda>i. map (\<lambda>j.
                  sumn P (\<lambda>p. sumn Q (\<lambda>q. hx ! p ! q * c ! p ! i * o' ! q ! j)))
                  [0..<J]) [0..<I]) h)
      else Inl ValueError)"

definition einsum_yji_xji :: "ten3 \<Rightarrow> ten3 \<Rightarrow> error + mat" where
  \<comment> \<open>\<^verbatim>\<open>numpy.einsum('yji,xji->xy', m, h)\<close>\<close>
  "einsum_yji_xji m h =
     (let J = (case h of [] \<Rightarrow> 0 | hx # _ \<Rightarrow> length hx);
          I = (case h of [] \<Rightarrow> 0 | hx # _ \<Rightarrow> ncols hx) in
      if is_ten3 (length h) J I h \<and> is_ten3 (length m) J I m
      then Inr (map (\<lambda>hx. map (\<lambda>my.
                  sumn J (\<lambda>j. sumn I (\<lambda>i. my ! j ! i * hx ! j ! i))) m) h)
      else Inl ValueError)"

definition einsum_yji_xji_i :: "ten3 \<Rightarrow> ten3 \<Rightarrow> real list \<Rightarrow> error + mat" where
  \<comment> \<open>\<^verbatim>\<open>numpy.einsum('yji,xji,i->xy', m, s, e)\<close>\<close>
  "einsum_yji_xji_i m s e =
     (let J = (case s of [] \<Rightarrow> 0 | sx # _ \<Rightarrow> length sx); I = length e in
      if is_ten3 (length s) J I s \<and> is_ten3 (length m) J I m
      then Inr (map (\<lambda>sx. map (\<lambda>my.
                  sumn J (\<lambda>j. sumn I (\<lambda>i. my ! j ! i * sx ! j ! i * complex_of_real (e ! i)))) m) s)
      else Inl ValueError)"

definition einsum_xij_yij :: "ten3 \<Rightarrow> ten3 \<Rightarrow> error + mat" where
  \<comment> \<open>\<^verbatim>\<open>numpy.einsum('xij,yij->xy', s, e)\<close>\<close>
  "einsum_xij_yij s e =
     (let I = (case s of [] \<Rightarrow> 0 | sx # _ \<Rightarrow> length sx);
          J = (case s of [] \<Rightarrow> 0 | sx # _ \<Rightarrow> ncols sx) in
      if is_ten3 (length s) I J s \<and> is_ten3 (length e) I J e
      then Inr (map (\<lambda>sx. map (\<lambda>ey.
                  sumn I (\<lambda>i. sumn J (\<lambda>j. sx ! i ! j * ey ! i ! j))) e) s)
      else Inl ValueError)"

subsection \<open>The objects the functions receive\<close>

text \<open>
  The SCF object carries, for the two spin channels, the orbital energies, the orbital
  coefficients (rows are atomic orbitals, columns molecular orbitals) and the
  occupation numbers. The magnetizability object carries the molecule, the SCF object,
  the logging fields and the \<^verbatim>\<open>cphf\<close> attribute. The molecule is opaque.
\<close>

type_synonym gauge = "(real \<times> real \<times> real) option"

datatype with_cphf = PyNone | PyBool bool | PyFun "vec \<Rightarrow> vec"

record scf_obj =
  mo_energy :: "real list \<times> real list"
  mo_coeff :: "mat \<times> mat"
  mo_occ :: "real list \<times> real list"

record 'm magobj =
  mol :: 'm
  scf :: scf_obj
  stdout :: nat
  verbose :: int
  cphf :: with_cphf

record logger =
  log_stdout :: nat
  log_verbose :: int

definition Logger :: "nat \<Rightarrow> int \<Rightarrow> logger" where
  "Logger out v = \<lparr>log_stdout = out, log_verbose = v\<rparr>"

text \<open>
  The methods that the functions look up on the magnetizability object: they belong to
  its class.
\<close>

record ('m, 'w) magcls =
  get_fock :: "'m magobj \<Rightarrow> mat \<times> mat \<Rightarrow> gauge \<Rightarrow> ('w, ten3 \<times> ten3) eff"
  get_ovlp :: "'m magobj \<Rightarrow> 'm \<Rightarrow> gauge \<Rightarrow> ('w, ten3) eff"

text \<open>
  A class of magnetizability objects has, besides these methods, the attributes
  \<^verbatim>\<open>dia\<close> and \<^verbatim>\<open>para\<close>.
\<close>

record ('m, 'w) magclass = "('m, 'w) magcls" +
  dia_attr :: "'m magobj \<Rightarrow> gauge \<Rightarrow> ('w, mat) eff"
  para_attr :: "'m magobj \<Rightarrow> gauge \<Rightarrow> (ten3 \<times> ten3) option \<Rightarrow> (ten3 \<times> ten3) option
                  \<Rightarrow> with_cphf \<Rightarrow> ('w, mat) eff"

text \<open>
  The code of other modules: \<^verbatim>\<open>rhf_mag._get_dia_1e\<close>, \<^verbatim>\<open>jk.get_jk\<close>,
  \<^verbatim>\<open>uhf_nmr.solve_mo1\<close>, \<^verbatim>\<open>uhf_nmr.get_fock\<close>, the class
  \<^verbatim>\<open>rhf_mag.Magnetizability\<close>, \<^verbatim>\<open>time.clock\<close>, \<^verbatim>\<open>time.time\<close>, the method
  \<^verbatim>\<open>Logger.timer\<close> and the function \<^verbatim>\<open>logger.timer\<close>.
\<close>

record ('m, 'w) ext =
  rhf_get_dia_1e :: "'m magobj \<Rightarrow> gauge \<Rightarrow> mat \<Rightarrow> mat \<Rightarrow> ('w, mat) eff"
  jk_get_jk :: "'m \<Rightarrow> mat list \<Rightarrow> string list \<Rightarrow> string \<Rightarrow> string \<Rightarrow> nat \<Rightarrow> int
                  \<Rightarrow> ('w, ten3 list) eff"
  nmr_solve_mo1 :: "'m magobj \<Rightarrow> real list \<times> real list \<Rightarrow> mat \<times> mat \<Rightarrow> real list \<times> real list
                  \<Rightarrow> ten3 \<times> ten3 \<Rightarrow> ten3 \<times> ten3 \<Rightarrow> with_cphf
                  \<Rightarrow> ('w, (ten3 \<times> ten3) \<times> (ten3 \<times> ten3)) eff"
  nmr_get_fock :: "'m magobj \<Rightarrow> mat \<times> mat \<Rightarrow> gauge \<Rightarrow> ('w, ten3 \<times> ten3) eff"
  rhf_Magnetizability :: "('m, 'w) magclass"
  time_clock :: "('w, real) eff"
  time_time :: "('w, real) eff"
  log_timer :: "logger \<Rightarrow> string \<Rightarrow> real \<times> real \<Rightarrow> ('w, real \<times> real) eff"
  logger_timer :: "'m magobj \<Rightarrow> string \<Rightarrow> real \<times> real \<Rightarrow> ('w, real \<times> real) eff"

subsection \<open>\<^verbatim>\<open>dia\<close>\<close>

definition occ_orbs :: "scf_obj \<Rightarrow> error + mat \<times> mat" where
  \<comment> \<open>\<^verbatim>\<open>orboa = mo_coeff[0][:,mo_occ[0] > 0]\<close> and the same for the second channel\<close>
  "occ_orbs mf =
     bindP (colmask (fst (mo_coeff mf)) (occupied (fst (mo_occ mf)))) (\<lambda>orboa.
     bindP (colmask (snd (mo_coeff mf)) (occupied (snd (mo_occ mf)))) (\<lambda>orbob.
     Inr (orboa, orbob)))"

definition dia_dens :: "scf_obj \<Rightarrow> error + mat \<times> mat \<times> mat \<times> mat" where
  \<comment> \<open>the density matrices of \<^verbatim>\<open>dia\<close>: \<open>(dm0, dm0a, dm0b, dme0)\<close>\<close>
  "dia_dens mf =
     bindP (occ_orbs mf) (\<lambda>(orboa, orbob).
     bindP (dot_T orboa orboa) (\<lambda>dm0a.
     bindP (dot_T orbob orbob) (\<lambda>dm0b.
     bindP (madd dm0a dm0b) (\<lambda>dm0.
     bindP (vmask (fst (mo_energy mf)) (occupied (fst (mo_occ mf)))) (\<lambda>ea.
     bindP (scale_cols orboa ea) (\<lambda>oea.
     bindP (dot_T oea orboa) (\<lambda>dme0a.
     bindP (vmask (snd (mo_energy mf)) (occupied (snd (mo_occ mf)))) (\<lambda>eb.
     bindP (scale_cols orbob eb) (\<lambda>oeb.
     bindP (dot_T oeb orbob) (\<lambda>dme0b.
     bindP (madd dme0a dme0b) (\<lambda>dme0.
     Inr (dm0, dm0a, dm0b, dme0))))))))))))"

definition jk_term :: "ten3 list \<Rightarrow> nat \<Rightarrow> mat \<Rightarrow> error + vec" where
  \<comment> \<open>\<^verbatim>\<open>numpy.einsum('xpq,qp->x', vs[i], dm)\<close>\<close>
  "jk_term vs i dm = bindP (item vs i) (\<lambda>v. einsum_xpq_qp v dm)"

definition half :: complex where
  "half = 1 / 2"

definition dia_gg1 :: "('m, 'w) ext \<Rightarrow> 'm \<Rightarrow> mat \<Rightarrow> mat \<Rightarrow> mat \<Rightarrow> vec \<Rightarrow> ('w, vec) eff" where
  \<comment> \<open>the \<^verbatim>\<open>int2e_gg1\<close> terms: the first \<^verbatim>\<open>jk.get_jk\<close> call and the five updates of \<open>e2\<close>\<close>
  "dia_gg1 E mol' dm0 dm0a dm0b e2 =
     bindE (jk_get_jk E mol' [dm0, dm0a, dm0a, dm0b, dm0b]
              [''ijkl,ji->s2kl'',
               ''ijkl,jk->s1il'', ''ijkl,li->s1kj'',
               ''ijkl,jk->s1il'', ''ijkl,li->s1kj'']
              ''int2e_gg1'' ''s4'' 9 1) (\<lambda>vs.
     bindE (liftP (bindP (jk_term vs 0 dm0) (\<lambda>t. vadd e2 t))) (\<lambda>e2.
     bindE (liftP (bindP (jk_term vs 1 dm0a) (\<lambda>t. vsub e2 (vscale t half)))) (\<lambda>e2.
     bindE (liftP (bindP (jk_term vs 2 dm0a) (\<lambda>t. vsub e2 (vscale t half)))) (\<lambda>e2.
     bindE (liftP (bindP (jk_term vs 3 dm0b) (\<lambda>t. vsub e2 (vscale t half)))) (\<lambda>e2.
     liftP (bindP (jk_term vs 4 dm0b) (\<lambda>t. vsub e2 (vscale t half))))))))"

definition dia_g1g2 :: "('m, 'w) ext \<Rightarrow> 'm \<Rightarrow> mat \<Rightarrow> mat \<Rightarrow> vec \<Rightarrow> ('w, vec) eff" where
  \<comment> \<open>the \<^verbatim>\<open>int2e_g1g2\<close> terms: the second \<^verbatim>\<open>jk.get_jk\<close> call and the two updates of \<open>e2\<close>\<close>
  "dia_g1g2 E mol' dm0a dm0b e2 =
     bindE (jk_get_jk E mol' [dm0a, dm0b] [''ijkl,jk->s1il'', ''ijkl,jk->s1il'']
              ''int2e_g1g2'' ''aa4'' 9 0) (\<lambda>vk.
     bindE (liftP (bindP (jk_term vk 0 dm0a) (\<lambda>t. vsub e2 t))) (\<lambda>e2.
     liftP (bindP (jk_term vk 1 dm0b) (\<lambda>t. vsub e2 t))))"

definition dia_2e :: "('m, 'w) ext \<Rightarrow> 'm \<Rightarrow> mat \<Rightarrow> mat \<Rightarrow> mat \<Rightarrow> vec \<Rightarrow> ('w, vec) eff" where
  \<comment> \<open>the body of \<^verbatim>\<open>if gauge_orig is None\<close>: the two-electron terms added to \<open>e2\<close>\<close>
  "dia_2e E mol' dm0 dm0a dm0b e2 =
     bindE (dia_gg1 E mol' dm0 dm0a dm0b e2) (\<lambda>e2. dia_g1g2 E mol' dm0a dm0b e2)"

definition dia :: "('m, 'w) ext \<Rightarrow> 'm magobj \<Rightarrow> gauge \<Rightarrow> ('w, mat) eff" where
  "dia E magobj gauge_orig =
     bindE (liftP (dia_dens (scf magobj))) (\<lambda>(dm0, dm0a, dm0b, dme0).
     bindE (rhf_get_dia_1e E magobj gauge_orig dm0 dme0) (\<lambda>a.
     bindE (case gauge_orig of
              None \<Rightarrow> dia_2e E (mol magobj) dm0 dm0a dm0b (ravel a)
            | Some _ \<Rightarrow> ret (ravel a)) (\<lambda>e2.
     bindE (liftP (reshape33 e2)) (\<lambda>r.
     ret (mneg r)))))"

subsection \<open>\<^verbatim>\<open>para\<close>\<close>

definition mo_transform :: "ten3 \<Rightarrow> mat \<Rightarrow> mat \<Rightarrow> error + ten3" where
  \<comment> \<open>\<^verbatim>\<open>lib.einsum('xpq,pi,qj->xij', h, mo_coeff.conj(), orbo)\<close>\<close>
  "mo_transform h c orbo = lib_einsum_xpq_pi_qj h (mconj c) orbo"

definition first_order_fock ::
  "('m, 'w) ext \<Rightarrow> ('m, 'w, 'z) magcls_scheme \<Rightarrow> 'm magobj \<Rightarrow> gauge \<Rightarrow> logger \<Rightarrow> real \<times> real
     \<Rightarrow> mat \<times> mat \<Rightarrow> ('w, (ten3 \<times> ten3) \<times> (real \<times> real)) eff" where
  \<comment> \<open>the body of \<^verbatim>\<open>if h1 is None\<close>: the new \<open>h1\<close> and the new \<open>cput1\<close>\<close>
  "first_order_fock E K magobj gauge_orig lg cput1 orbo =
     bindE (liftP (bindP (dot_T (fst orbo) (fst orbo)) (\<lambda>dm0a.
                   bindP (dot_T (snd orbo) (snd orbo)) (\<lambda>dm0b. Inr (dm0a, dm0b))))) (\<lambda>dm0.
     bindE (get_fock K magobj dm0 gauge_orig) (\<lambda>h1.
     bindE (liftP (bindP (mo_transform (fst h1) (fst (mo_coeff (scf magobj))) (fst orbo)) (\<lambda>h1a.
                   bindP (mo_transform (snd h1) (snd (mo_coeff (scf magobj))) (snd orbo)) (\<lambda>h1b.
                   Inr (h1a, h1b))))) (\<lambda>h1.
     bindE (log_timer E lg ''first order Fock matrix'' cput1) (\<lambda>cput1.
     ret (h1, cput1)))))"

definition first_order_ovlp ::
  "('m, 'w, 'z) magcls_scheme \<Rightarrow> 'm magobj \<Rightarrow> gauge \<Rightarrow> mat \<times> mat \<Rightarrow> ('w, ten3 \<times> ten3) eff" where
  \<comment> \<open>the body of \<^verbatim>\<open>if s1 is None\<close>\<close>
  "first_order_ovlp K magobj gauge_orig orbo =
     bindE (get_ovlp K magobj (mol magobj) gauge_orig) (\<lambda>s1.
     liftP (bindP (mo_transform s1 (fst (mo_coeff (scf magobj))) (fst orbo)) (\<lambda>s1a.
            bindP (mo_transform s1 (snd (mo_coeff (scf magobj))) (snd orbo)) (\<lambda>s1b.
            Inr (s1a, s1b)))))"

definition para_contract ::
  "scf_obj \<Rightarrow> ten3 \<times> ten3 \<Rightarrow> ten3 \<times> ten3 \<Rightarrow> ten3 \<times> ten3 \<Rightarrow> ten3 \<times> ten3 \<Rightarrow> error + mat" where
  \<comment> \<open>from \<^verbatim>\<open>occidxa = mo_occ[0] > 0\<close> to \<^verbatim>\<open>return -mag_para\<close>\<close>
  "para_contract mf mo1 mo_e1 h1 s1 =
     (let occidxa = occupied (fst (mo_occ mf)); occidxb = occupied (snd (mo_occ mf)) in
      bindP (einsum_yji_xji (fst mo1) (fst h1)) (\<lambda>mag_para.
      bindP (bindP (einsum_yji_xji (snd mo1) (snd h1)) (madd mag_para)) (\<lambda>mag_para.
      bindP (bindP (bindP (vmask (fst (mo_energy mf)) occidxa)
                      (einsum_yji_xji_i (fst mo1) (fst s1))) (msub mag_para)) (\<lambda>mag_para.
      bindP (bindP (bindP (vmask (snd (mo_energy mf)) occidxb)
                      (einsum_yji_xji_i (snd mo1) (snd s1))) (msub mag_para)) (\<lambda>mag_para.
      bindP (madd mag_para (mconj mag_para)) (\<lambda>mag_para.
      bindP (bindP (bindP (colmask3 (fst s1) occidxa)
                      (\<lambda>s. einsum_xij_yij s (fst mo_e1))) (msub mag_para)) (\<lambda>mag_para.
      bindP (bindP (bindP (colmask3 (snd s1) occidxb)
                      (\<lambda>s. einsum_xij_yij s (snd mo_e1))) (msub mag_para)) (\<lambda>mag_para.
      Inr (mneg mag_para)))))))))"

definition para ::
  "('m, 'w) ext \<Rightarrow> ('m, 'w, 'z) magcls_scheme \<Rightarrow> 'm magobj \<Rightarrow> gauge \<Rightarrow> (ten3 \<times> ten3) option
     \<Rightarrow> (ten3 \<times> ten3) option \<Rightarrow> with_cphf \<Rightarrow> ('w, mat) eff" where
  "para E K magobj gauge_orig h1 s1 with_cphf =
     (let lg = Logger (stdout magobj) (verbose magobj) in
      bindE (time_clock E) (\<lambda>t0. bindE (time_time E) (\<lambda>t1.
      let mf = scf magobj in
      bindE (liftP (occ_orbs mf)) (\<lambda>orbo.
      bindE (case h1 of
               None \<Rightarrow> first_order_fock E K magobj gauge_orig lg (t0, t1) orbo
             | Some h \<Rightarrow> ret (h, (t0, t1))) (\<lambda>(h1, cput1).
      bindE (case s1 of
               None \<Rightarrow> first_order_ovlp K magobj gauge_orig orbo
             | Some s \<Rightarrow> ret s) (\<lambda>s1.
      let with_cphf = cphf magobj in
      bindE (nmr_solve_mo1 E magobj (mo_energy mf) (mo_coeff mf) (mo_occ mf) h1 s1 with_cphf)
        (\<lambda>(mo1, mo_e1).
      bindE (logger_timer E magobj ''solving mo1 eqn'' cput1) (\<lambda>cput1.
      liftP (para_contract mf mo1 mo_e1 h1 s1)))))))))"

subsection \<open>The class \<^verbatim>\<open>Magnetizability\<close>\<close>

text \<open>
  \<^verbatim>\<open>class Magnetizability(rhf_mag.Magnetizability)\<close> sets three attributes and takes
  every other one from its parent. \<^verbatim>\<open>para\<close> looks up \<^verbatim>\<open>get_fock\<close> and
  \<^verbatim>\<open>get_ovlp\<close> on the object it is given; for an object of this class these are the
  ones of the class.
\<close>

definition Magnetizability :: "('m, 'w) ext \<Rightarrow> ('m, 'w) magclass" where
  "Magnetizability E =
     (let K = (rhf_Magnetizability E)\<lparr>get_fock := nmr_get_fock E\<rparr>
      in K\<lparr>dia_attr := dia E, para_attr := para E K\<rparr>)"

subsection \<open>The transformation to the molecular-orbital basis, as a matrix product\<close>

text \<open>
  The specification describes the assembly of the first-order matrices as the product
  \<open>conj(mo_coeff)\<^sup>T * M * orb_occ\<close>. These definitions follow those words: the
  conjugate transpose, the product of two matrices, and the product of the three.
\<close>

definition ctranspose :: "mat \<Rightarrow> mat" where
  "ctranspose C = map (\<lambda>i. map (\<lambda>p. cnj (C ! p ! i)) [0..<length C]) [0..<ncols C]"

definition matmul :: "mat \<Rightarrow> mat \<Rightarrow> mat" where
  "matmul A B = map (\<lambda>a. map (\<lambda>j. sumn (length B) (\<lambda>k. a ! k * B ! k ! j)) [0..<ncols B]) A"

definition to_mo :: "mat \<Rightarrow> mat \<Rightarrow> mat \<Rightarrow> mat" where
  "to_mo C M orbo = matmul (matmul (ctranspose C) M) orbo"

subsection \<open>The returned tensors, entry by entry\<close>

text \<open>
  The entries that the two functions are to return, written as sums over indices:
  component \<open>x\<close> of the contraction \<^verbatim>\<open>'xpq,qp->x'\<close>, the nine components that
  \<^verbatim>\<open>dia\<close> accumulates, the entries of the three contractions of \<^verbatim>\<open>para\<close>, and
  the entry \<open>(x, y)\<close> of the tensor that \<^verbatim>\<open>para\<close> returns.
\<close>

definition contr :: "ten3 \<Rightarrow> mat \<Rightarrow> nat \<Rightarrow> complex" where
  "contr v d x = sumn (ncols d) (\<lambda>p. sumn (length d) (\<lambda>q. v ! x ! p ! q * d ! q ! p))"

definition dia_component :: "vec \<Rightarrow> ten3 list \<Rightarrow> ten3 list \<Rightarrow> mat \<Rightarrow> mat \<Rightarrow> mat \<Rightarrow> nat \<Rightarrow> complex" where
  "dia_component e1 vs vk dm0 dm0a dm0b k =
     e1 ! k + contr (vs ! 0) dm0 k
       - contr (vs ! 1) dm0a k * half - contr (vs ! 2) dm0a k * half
       - contr (vs ! 3) dm0b k * half - contr (vs ! 4) dm0b k * half
       - contr (vk ! 0) dm0a k - contr (vk ! 1) dm0b k"

definition tab :: "nat \<Rightarrow> nat \<Rightarrow> (nat \<Rightarrow> nat \<Rightarrow> complex) \<Rightarrow> mat" where
  \<comment> \<open>the matrix with the given entries\<close>
  "tab n m f = map (\<lambda>x. map (\<lambda>y. f x y) [0..<m]) [0..<n]"

definition c_yji_xji :: "ten3 \<Rightarrow> ten3 \<Rightarrow> nat \<Rightarrow> nat \<Rightarrow> complex" where
  \<comment> \<open>entry \<open>(x, y)\<close> of \<^verbatim>\<open>'yji,xji->xy'\<close>\<close>
  "c_yji_xji m h x y =
     sumn (length (h ! x)) (\<lambda>j. sumn (ncols (h ! x)) (\<lambda>i. m ! y ! j ! i * h ! x ! j ! i))"

definition c_yji_xji_i :: "ten3 \<Rightarrow> ten3 \<Rightarrow> real list \<Rightarrow> nat \<Rightarrow> nat \<Rightarrow> complex" where
  \<comment> \<open>entry \<open>(x, y)\<close> of \<^verbatim>\<open>'yji,xji,i->xy'\<close>\<close>
  "c_yji_xji_i m s e x y =
     sumn (length (s ! x)) (\<lambda>j. sumn (length e)
       (\<lambda>i. m ! y ! j ! i * s ! x ! j ! i * complex_of_real (e ! i)))"

definition c_xij_yij :: "ten3 \<Rightarrow> ten3 \<Rightarrow> nat \<Rightarrow> nat \<Rightarrow> complex" where
  \<comment> \<open>entry \<open>(x, y)\<close> of \<^verbatim>\<open>'xij,yij->xy'\<close>\<close>
  "c_xij_yij s e x y =
     sumn (length (s ! x)) (\<lambda>i. sumn (ncols (s ! x)) (\<lambda>j. s ! x ! i ! j * e ! y ! i ! j))"

definition para_component ::
  "scf_obj \<Rightarrow> ten3 \<times> ten3 \<Rightarrow> ten3 \<times> ten3 \<Rightarrow> ten3 \<times> ten3 \<Rightarrow> ten3 \<times> ten3 \<Rightarrow> nat \<Rightarrow> nat \<Rightarrow> complex" where
  "para_component mf mo1 mo_e1 h1 s1 x y =
     (let occa = occupied (fst (mo_occ mf)); occb = occupied (snd (mo_occ mf));
          t = c_yji_xji (fst mo1) (fst h1) x y + c_yji_xji (snd mo1) (snd h1) x y
              - c_yji_xji_i (fst mo1) (fst s1) (pick (fst (mo_energy mf)) occa) x y
              - c_yji_xji_i (snd mo1) (snd s1) (pick (snd (mo_energy mf)) occb) x y
      in - (t + cnj t
            - c_xij_yij (map (\<lambda>A. pick A occa) (fst s1)) (fst mo_e1) x y
            - c_xij_yij (map (\<lambda>A. pick A occb) (snd s1)) (snd mo_e1) x y))"

subsection \<open>Computations whose outcome does not depend on the world\<close>

text \<open>
  Two computations have the same outcome when, from any two worlds, both raise the same
  exception or both return, with related values. With equality as the relation and a
  computation compared with itself, its value is a function of its arguments alone;
  with the trivial relation, only whether and what it raises is.
\<close>

definition same_outcome :: "('a \<Rightarrow> 'b \<Rightarrow> bool) \<Rightarrow> ('w, 'a) eff \<Rightarrow> ('w, 'b) eff \<Rightarrow> bool" where
  "same_outcome R m m' = (\<forall>w w'. rel_sum (=) R (fst (m w)) (fst (m' w')))"

subsection \<open>A small instance\<close>

text \<open>
  Two atomic orbitals, two molecular orbitals and one occupied orbital in each spin
  channel. The world is a counter of the calls made to code outside the file.
\<close>

definition ex_scf :: scf_obj where
  "ex_scf = \<lparr>mo_energy = ([-1, 2], [-3, 1]),
             mo_coeff = ([[1, 2], [0, 1]], [[1, 0], [2, 1]]),
             mo_occ = ([1, 0], [1, 0])\<rparr>"

definition ex_mag :: "unit magobj" where
  "ex_mag = \<lparr>mol = (), scf = ex_scf, stdout = 1, verbose = 4, cphf = PyBool True\<rparr>"

definition ex_mag_c :: "unit magobj" where
  \<comment> \<open>the same object with a complex coefficient in the second spin channel\<close>
  "ex_mag_c = ex_mag\<lparr>scf := ex_scf\<lparr>mo_coeff := ([[1, 2], [0, 1]], [[1, 0], [\<i>, 1]])\<rparr>\<rparr>"

definition ex_K :: "(unit, nat) magcls" where
  "ex_K = \<lparr>get_fock = (\<lambda>m dm g w. (Inr ([fst dm, fst dm, [[1, 0], [0, 1]]],
                                           [[[1, 0], [0, 1]], [[0, 1], [1, 0]], snd dm]), Suc w)),
           get_ovlp = (\<lambda>m ml g w.
                         (Inr [[[1, 0], [0, 1]], [[0, 1], [1, 0]], [[1, 1], [1, 1]]], Suc w))\<rparr>"

definition failing :: "string \<Rightarrow> (nat, 'a) eff" where
  \<comment> \<open>a call that raises\<close>
  "failing msg = (\<lambda>w. (Inl (Raised msg), Suc w))"

definition ex_rhf :: "(unit, nat) magclass" where
  \<comment> \<open>a parent class: its own \<^verbatim>\<open>get_fock\<close>, \<^verbatim>\<open>dia\<close> and \<^verbatim>\<open>para\<close> are never reached\<close>
  "ex_rhf = \<lparr>get_fock = (\<lambda>m dm g. failing ''rhf get_fock''),
             get_ovlp = get_ovlp ex_K,
             dia_attr = (\<lambda>m g. failing ''rhf dia''),
             para_attr = (\<lambda>m g h s v. failing ''rhf para'')\<rparr>"

definition ex_E :: "(unit, nat) ext" where
  "ex_E = \<lparr>rhf_get_dia_1e = (\<lambda>m g dm0 dme0 w. (Inr [[1, 2, 3], [4, 5, 6], [7, 8, 9]], Suc w)),
           jk_get_jk = (\<lambda>ml dms scr intor aosym comp hermi w.
                          (Inr (map (\<lambda>d. [d, d, d, d, d, d, d, d, d]) dms), Suc w)),
           nmr_solve_mo1 = (\<lambda>m e c o' h s f w.
                          (Inr (h, ([[[1]], [[2]], [[3]]], [[[1]], [[0]], [[-1]]])), Suc w)),
           nmr_get_fock = get_fock ex_K,
           rhf_Magnetizability = ex_rhf,
           time_clock = (\<lambda>w. (Inr (real w), Suc w)),
           time_time = (\<lambda>w. (Inr (real w), Suc w)),
           log_timer = (\<lambda>l msg c w. (Inr c, Suc w)),
           logger_timer = (\<lambda>m msg c w. (Inr c, Suc w))\<rparr>"

section \<open>Properties\<close>

subsection \<open>Running a computation step by step\<close>

lemma bindE_Inr: "m w = (Inr x, w') \<Longrightarrow> bindE m f w = f x w'"
  by (simp add: bindE_def)

lemma bindE_Inl: "m w = (Inl e, w') \<Longrightarrow> bindE m f w = (Inl e, w')"
  by (simp add: bindE_def)

lemma liftP_Inr: "r = Inr x \<Longrightarrow> bindE (liftP r) f w = f x w"
  by (simp add: bindE_def liftP_def)

lemmas array_defs = bindP_def is_mat_def is_ten3_def ncols_def sumn_def occupied_def pick_def
  vmask_def colmask_def colmask3_def dotv_def dot_T_def vadd_def vsub_def vscale_def
  same_shape_def madd_def msub_def mneg_def mconj_def scale_cols_def ravel_def reshape33_def
  item_def einsum_xpq_qp_def lib_einsum_xpq_pi_qj_def einsum_yji_xji_def einsum_yji_xji_i_def
  einsum_xij_yij_def mo_transform_def jk_term_def half_def occ_orbs_def dia_dens_def
  para_contract_def

lemmas eff_defs = bindE_def liftP_def ret_def

lemmas ex_defs = ex_scf_def ex_mag_def ex_K_def ex_E_def ex_rhf_def failing_def Logger_def

subsection \<open>The \<^verbatim>\<open>with_cphf\<close> keyword of \<^verbatim>\<open>para\<close>\<close>

text \<open>
  Claim C4. For every magnetizability object and every value \<open>v\<close> of the keyword
  \<^verbatim>\<open>with_cphf\<close> (a boolean, a function or None), \<^verbatim>\<open>para\<close> called with \<open>v\<close> does what
  it does when called with None: the keyword is overwritten by \<^verbatim>\<open>magobj.cphf\<close> before
  the response equations are solved. The second equation says what the solver is given:
  a solver that is handed \<^verbatim>\<open>magobj.cphf\<close> whatever its last argument is leaves
  \<^verbatim>\<open>para\<close> as it is. Results, exceptions and effects on the world are all part of
  the equality.
\<close>

theorem para_ignores_with_cphf:
  "para E K magobj gauge_orig h1 s1 v = para E K magobj gauge_orig h1 s1 PyNone
   \<and> para E K magobj gauge_orig h1 s1 v =
     para (E\<lparr>nmr_solve_mo1 :=
              \<lambda>m e c o' h s _. nmr_solve_mo1 E m e c o' h s (cphf magobj)\<rparr>)
       K magobj gauge_orig h1 s1 v"
  by (cases h1) (simp_all add: para_def first_order_fock_def)

subsection \<open>\<^verbatim>\<open>dia\<close> with a gauge origin\<close>

text \<open>
  Claim C6. When \<^verbatim>\<open>dia\<close> is called with a gauge origin, the two-electron contractions
  are skipped: the result is the negated, reshaped one-electron term of
  \<^verbatim>\<open>rhf_mag._get_dia_1e\<close> on \<open>dm0\<close> and \<open>dme0\<close>, and \<^verbatim>\<open>dia\<close> is the same whatever
  \<^verbatim>\<open>jk.get_jk\<close> is. Without a gauge origin the two-electron terms of \<open>dia_2e\<close> are
  added to the one-electron term before it is reshaped and negated.
\<close>

theorem dia_gauge_orig_skips_2e:
  "dia E magobj (Some g) =
     bindE (liftP (dia_dens (scf magobj))) (\<lambda>(dm0, dm0a, dm0b, dme0).
     bindE (rhf_get_dia_1e E magobj (Some g) dm0 dme0) (\<lambda>a.
     bindE (liftP (reshape33 (ravel a))) (\<lambda>r. ret (mneg r))))
   \<and> dia (E\<lparr>jk_get_jk := j\<rparr>) magobj (Some g) = dia E magobj (Some g)
   \<and> dia E magobj None =
     bindE (liftP (dia_dens (scf magobj))) (\<lambda>(dm0, dm0a, dm0b, dme0).
     bindE (rhf_get_dia_1e E magobj None dm0 dme0) (\<lambda>a.
     bindE (dia_2e E (mol magobj) dm0 dm0a dm0b (ravel a)) (\<lambda>e2.
     bindE (liftP (reshape33 e2)) (\<lambda>r. ret (mneg r)))))"
  unfolding dia_def
  by (simp add: bindE_def ret_def liftP_def fun_eq_iff split: prod.splits sum.splits)

subsection \<open>The response equations\<close>

text \<open>
  Claim C2. Whenever \<^verbatim>\<open>para\<close> gets as far as the response equations (the clock was
  read, the occupied orbitals selected, and \<open>h1\<close> and \<open>s1\<close> were given or assembled),
  the first-order coefficients \<open>mo1\<close> and energies \<open>mo_e1\<close> that enter the contraction
  are the ones that \<^verbatim>\<open>uhf_nmr.solve_mo1\<close> returns for the orbital energies,
  coefficients and occupations of the SCF object and these \<open>h1\<close> and \<open>s1\<close>; an
  exception of the solver or of the timer ends \<^verbatim>\<open>para\<close>.
\<close>

theorem para_solves_mo1:
  assumes "time_clock E w = (Inr t0, w1)" and "time_time E w1 = (Inr t1, w2)"
    and "occ_orbs (scf magobj) = Inr orbo"
    and "(case h1 of
            None \<Rightarrow> first_order_fock E K magobj gauge_orig
                      (Logger (stdout magobj) (verbose magobj)) (t0, t1) orbo
          | Some h \<Rightarrow> ret (h, (t0, t1))) w2 = (Inr (h1', cput1), w3)"
    and "(case s1 of
            None \<Rightarrow> first_order_ovlp K magobj gauge_orig orbo
          | Some s \<Rightarrow> ret s) w3 = (Inr s1', w4)"
  shows "para E K magobj gauge_orig h1 s1 v w =
     (case nmr_solve_mo1 E magobj (mo_energy (scf magobj)) (mo_coeff (scf magobj))
             (mo_occ (scf magobj)) h1' s1' (cphf magobj) w4 of
        (Inl e, w5) \<Rightarrow> (Inl e, w5)
      | (Inr (mo1, mo_e1), w5) \<Rightarrow>
          (case logger_timer E magobj ''solving mo1 eqn'' cput1 w5 of
             (Inl e, w6) \<Rightarrow> (Inl e, w6)
           | (Inr c, w6) \<Rightarrow> (para_contract (scf magobj) mo1 mo_e1 h1' s1', w6)))"
  using assms unfolding para_def Let_def
  by (simp add: bindE_Inr liftP_Inr) (simp add: bindE_def liftP_def split: prod.splits sum.splits)

theorem para_solves_mo1_witness:
  "para ex_E ex_K ex_mag None None None (PyBool False) 0 =
     (Inr [[- 246, - 194, - 1182], [- 186, - 150, - 898], [- 610, - 476, - 3010]], 7)"
proof -
  have a: "time_clock ex_E 0 = (Inr 0, 1)"
    by (simp add: ex_defs)
  have b: "time_time ex_E 1 = (Inr 1, 2)"
    by (simp add: ex_defs)
  have c: "occ_orbs (scf ex_mag) = Inr ([[1], [0]], [[1], [2]])"
    by (simp add: ex_defs array_defs)
  have d: "(case None of
              None \<Rightarrow> first_order_fock ex_E ex_K ex_mag None
                        (Logger (stdout ex_mag) (verbose ex_mag)) (0, 1) ([[1], [0]], [[1], [2]])
            | Some h \<Rightarrow> ret (h, (0, 1))) 2
           = (Inr (([[[1], [2]], [[1], [2]], [[1], [2]]],
                    [[[5], [2]], [[4], [1]], [[25], [10]]]), (0, 1)), 4)"
    by (simp add: first_order_fock_def ex_defs eff_defs array_defs)
  have e: "(case None of
              None \<Rightarrow> first_order_ovlp ex_K ex_mag None ([[1], [0]], [[1], [2]])
            | Some s \<Rightarrow> ret s) 4
           = (Inr ([[[1], [2]], [[0], [1]], [[1], [3]]],
                   [[[5], [2]], [[4], [1]], [[9], [3]]]), 5)"
    by (simp add: first_order_ovlp_def ex_defs eff_defs array_defs)
  show ?thesis
    using para_solves_mo1 [OF a b c d e, of "PyBool False"]
    by (simp add: ex_defs array_defs)
qed

subsection \<open>Exceptions of the code outside the file\<close>

text \<open>
  Claim C9. \<^verbatim>\<open>dia\<close> and \<^verbatim>\<open>para\<close> catch nothing and transform nothing: when
  \<^verbatim>\<open>rhf_mag._get_dia_1e\<close>, either call of \<^verbatim>\<open>jk.get_jk\<close>, \<^verbatim>\<open>magobj.get_fock\<close>,
  \<^verbatim>\<open>magobj.get_ovlp\<close> or \<^verbatim>\<open>uhf_nmr.solve_mo1\<close> raises at the point where the function
  calls it, the function ends with that same exception, in the world the failed call
  left, and returns no tensor. The model has no branch that raises an exception of its
  own: the only other exceptions are those of indexing and of the array operations.
\<close>

theorem external_failures_propagate:
  "(dia_dens (scf magobj) = Inr (dm0, dm0a, dm0b, dme0) \<longrightarrow>
    rhf_get_dia_1e E magobj g dm0 dme0 w = (Inl e, w') \<longrightarrow>
    dia E magobj g w = (Inl e, w'))
   \<and> (dia_dens (scf magobj) = Inr (dm0, dm0a, dm0b, dme0) \<longrightarrow>
    rhf_get_dia_1e E magobj None dm0 dme0 w = (Inr a, w1) \<longrightarrow>
    jk_get_jk E (mol magobj) [dm0, dm0a, dm0a, dm0b, dm0b]
      [''ijkl,ji->s2kl'', ''ijkl,jk->s1il'', ''ijkl,li->s1kj'',
       ''ijkl,jk->s1il'', ''ijkl,li->s1kj''] ''int2e_gg1'' ''s4'' 9 1 w1 = (Inl e, w') \<longrightarrow>
    dia E magobj None w = (Inl e, w'))
   \<and> (dia_dens (scf magobj) = Inr (dm0, dm0a, dm0b, dme0) \<longrightarrow>
    rhf_get_dia_1e E magobj None dm0 dme0 w = (Inr a, w1) \<longrightarrow>
    dia_gg1 E (mol magobj) dm0 dm0a dm0b (ravel a) w1 = (Inr e2, w2) \<longrightarrow>
    jk_get_jk E (mol magobj) [dm0a, dm0b] [''ijkl,jk->s1il'', ''ijkl,jk->s1il'']
      ''int2e_g1g2'' ''aa4'' 9 0 w2 = (Inl e, w') \<longrightarrow>
    dia E magobj None w = (Inl e, w'))
   \<and> (time_clock E w = (Inr t0, w1) \<longrightarrow> time_time E w1 = (Inr t1, w2) \<longrightarrow>
    occ_orbs (scf magobj) = Inr (orboa, orbob) \<longrightarrow>
    dot_T orboa orboa = Inr dm0a \<longrightarrow> dot_T orbob orbob = Inr dm0b \<longrightarrow>
    get_fock K magobj (dm0a, dm0b) g w2 = (Inl e, w') \<longrightarrow>
    para E K magobj g None s1 v w = (Inl e, w'))
   \<and> (time_clock E w = (Inr t0, w1) \<longrightarrow> time_time E w1 = (Inr t1, w2) \<longrightarrow>
    occ_orbs (scf magobj) = Inr orbo \<longrightarrow>
    (case h1 of
       None \<Rightarrow> first_order_fock E K magobj g
                 (Logger (stdout magobj) (verbose magobj)) (t0, t1) orbo
     | Some h \<Rightarrow> ret (h, (t0, t1))) w2 = (Inr (h1', cput1), w3) \<longrightarrow>
    get_ovlp K magobj (mol magobj) g w3 = (Inl e, w') \<longrightarrow>
    para E K magobj g h1 None v w = (Inl e, w'))
   \<and> (time_clock E w = (Inr t0, w1) \<longrightarrow> time_time E w1 = (Inr t1, w2) \<longrightarrow>
    occ_orbs (scf magobj) = Inr orbo \<longrightarrow>
    (case h1 of
       None \<Rightarrow> first_order_fock E K magobj g
                 (Logger (stdout magobj) (verbose magobj)) (t0, t1) orbo
     | Some h \<Rightarrow> ret (h, (t0, t1))) w2 = (Inr (h1', cput1), w3) \<longrightarrow>
    (case s1 of
       None \<Rightarrow> first_order_ovlp K magobj g orbo
     | Some s \<Rightarrow> ret s) w3 = (Inr s1', w4) \<longrightarrow>
    nmr_solve_mo1 E magobj (mo_energy (scf magobj)) (mo_coeff (scf magobj))
      (mo_occ (scf magobj)) h1' s1' (cphf magobj) w4 = (Inl e, w') \<longrightarrow>
    para E K magobj g h1 s1 v w = (Inl e, w'))"
proof (intro conjI impI)
  assume "dia_dens (scf magobj) = Inr (dm0, dm0a, dm0b, dme0)"
    and "rhf_get_dia_1e E magobj g dm0 dme0 w = (Inl e, w')"
  then show "dia E magobj g w = (Inl e, w')"
    by (simp add: dia_def eff_defs)
next
  assume "dia_dens (scf magobj) = Inr (dm0, dm0a, dm0b, dme0)"
    and "rhf_get_dia_1e E magobj None dm0 dme0 w = (Inr a, w1)"
    and "jk_get_jk E (mol magobj) [dm0, dm0a, dm0a, dm0b, dm0b]
      [''ijkl,ji->s2kl'', ''ijkl,jk->s1il'', ''ijkl,li->s1kj'',
       ''ijkl,jk->s1il'', ''ijkl,li->s1kj''] ''int2e_gg1'' ''s4'' 9 1 w1 = (Inl e, w')"
  then show "dia E magobj None w = (Inl e, w')"
    by (simp add: dia_def dia_2e_def dia_gg1_def eff_defs)
next
  assume "dia_dens (scf magobj) = Inr (dm0, dm0a, dm0b, dme0)"
    and "rhf_get_dia_1e E magobj None dm0 dme0 w = (Inr a, w1)"
    and "dia_gg1 E (mol magobj) dm0 dm0a dm0b (ravel a) w1 = (Inr e2, w2)"
    and "jk_get_jk E (mol magobj) [dm0a, dm0b] [''ijkl,jk->s1il'', ''ijkl,jk->s1il'']
      ''int2e_g1g2'' ''aa4'' 9 0 w2 = (Inl e, w')"
  then show "dia E magobj None w = (Inl e, w')"
    by (simp add: dia_def dia_2e_def dia_g1g2_def eff_defs)
next
  assume "time_clock E w = (Inr t0, w1)" and "time_time E w1 = (Inr t1, w2)"
    and "occ_orbs (scf magobj) = Inr (orboa, orbob)"
    and "dot_T orboa orboa = Inr dm0a" and "dot_T orbob orbob = Inr dm0b"
    and "get_fock K magobj (dm0a, dm0b) g w2 = (Inl e, w')"
  then show "para E K magobj g None s1 v w = (Inl e, w')"
    by (simp add: para_def first_order_fock_def eff_defs bindP_def Let_def)
next
  assume "time_clock E w = (Inr t0, w1)" and "time_time E w1 = (Inr t1, w2)"
    and "occ_orbs (scf magobj) = Inr orbo"
    and "(case h1 of
       None \<Rightarrow> first_order_fock E K magobj g
                 (Logger (stdout magobj) (verbose magobj)) (t0, t1) orbo
     | Some h \<Rightarrow> ret (h, (t0, t1))) w2 = (Inr (h1', cput1), w3)"
    and "get_ovlp K magobj (mol magobj) g w3 = (Inl e, w')"
  then show "para E K magobj g h1 None v w = (Inl e, w')"
    by (simp add: para_def first_order_ovlp_def eff_defs Let_def)
next
  assume "time_clock E w = (Inr t0, w1)" and "time_time E w1 = (Inr t1, w2)"
    and "occ_orbs (scf magobj) = Inr orbo"
    and "(case h1 of
       None \<Rightarrow> first_order_fock E K magobj g
                 (Logger (stdout magobj) (verbose magobj)) (t0, t1) orbo
     | Some h \<Rightarrow> ret (h, (t0, t1))) w2 = (Inr (h1', cput1), w3)"
    and "(case s1 of
       None \<Rightarrow> first_order_ovlp K magobj g orbo
     | Some s \<Rightarrow> ret s) w3 = (Inr s1', w4)"
    and "nmr_solve_mo1 E magobj (mo_energy (scf magobj)) (mo_coeff (scf magobj))
      (mo_occ (scf magobj)) h1' s1' (cphf magobj) w4 = (Inl e, w')"
  then show "para E K magobj g h1 s1 v w = (Inl e, w')"
    by (simp add: para_def eff_defs Let_def)
qed

theorem external_failures_propagate_witness:
  "dia (ex_E\<lparr>rhf_get_dia_1e := \<lambda>m g d1 d2. failing ''get_dia_1e''\<rparr>) ex_mag None 0
     = (Inl (Raised ''get_dia_1e''), 1)
   \<and> dia (ex_E\<lparr>jk_get_jk := \<lambda>ml dms scr intor aosym comp hermi. failing ''get_jk''\<rparr>)
       ex_mag None 0 = (Inl (Raised ''get_jk''), 2)
   \<and> dia (ex_E\<lparr>jk_get_jk := \<lambda>ml dms scr intor aosym comp hermi.
              if intor = ''int2e_g1g2'' then failing ''get_jk''
              else jk_get_jk ex_E ml dms scr intor aosym comp hermi\<rparr>)
       ex_mag None 0 = (Inl (Raised ''get_jk''), 3)
   \<and> para ex_E (ex_K\<lparr>get_fock := \<lambda>m dm g. failing ''get_fock''\<rparr>) ex_mag None None None PyNone 0
     = (Inl (Raised ''get_fock''), 3)
   \<and> para ex_E (ex_K\<lparr>get_ovlp := \<lambda>m ml g. failing ''get_ovlp''\<rparr>) ex_mag None None None PyNone 0
     = (Inl (Raised ''get_ovlp''), 5)
   \<and> para (ex_E\<lparr>nmr_solve_mo1 := \<lambda>m e c o' h s f. failing ''solve_mo1''\<rparr>) ex_K ex_mag
       None None None PyNone 0 = (Inl (Raised ''solve_mo1''), 6)"
proof -
  note T = external_failures_propagate
  have dens: "dia_dens (scf ex_mag)
      = Inr ([[2, 2], [2, 4]], [[1, 0], [0, 0]], [[1, 2], [2, 4]], [[- 4, - 6], [- 6, - 12]])"
    by (simp add: ex_defs array_defs)
  have occ: "occ_orbs (scf ex_mag) = Inr ([[1], [0]], [[1], [2]])"
    by (simp add: ex_defs array_defs)
  have da: "dot_T [[1], [0]] [[1], [0]] = Inr [[1, 0], [0, 0]]"
    by (simp add: array_defs)
  have db: "dot_T [[1], [2]] [[1], [2]] = Inr [[1, 2], [2, 4]]"
    by (simp add: array_defs)
  have c0: "time_clock ex_E 0 = (Inr 0, 1)" and c1: "time_time ex_E 1 = (Inr 1, 2)"
    by (simp_all add: ex_defs)
  have one: "dia (ex_E\<lparr>rhf_get_dia_1e := \<lambda>m g d1 d2. failing ''get_dia_1e''\<rparr>) ex_mag None 0
     = (Inl (Raised ''get_dia_1e''), 1)"
    by (rule T [THEN conjunct1, rule_format, OF dens]) (simp add: ex_defs)
  have two: "dia (ex_E\<lparr>jk_get_jk := \<lambda>ml dms scr intor aosym comp hermi. failing ''get_jk''\<rparr>)
       ex_mag None 0 = (Inl (Raised ''get_jk''), 2)"
    by (rule T [THEN conjunct2, THEN conjunct1, rule_format, OF dens, where ?w1.0 = 1])
      (simp_all add: ex_defs)
  have three: "dia (ex_E\<lparr>jk_get_jk := \<lambda>ml dms scr intor aosym comp hermi.
              if intor = ''int2e_g1g2'' then failing ''get_jk''
              else jk_get_jk ex_E ml dms scr intor aosym comp hermi\<rparr>)
       ex_mag None 0 = (Inl (Raised ''get_jk''), 3)"
    by (rule T [THEN conjunct2, THEN conjunct2, THEN conjunct1, rule_format, OF dens,
          where ?w1.0 = 1 and ?w2.0 = 2 and a = "[[1, 2, 3], [4, 5, 6], [7, 8, 9]]"
            and ?e2.0 = "[3, 4, 5, 6, 7, 8, 9, 10, 11]"])
      (simp_all add: ex_defs dia_gg1_def eff_defs array_defs)
  have four: "para ex_E (ex_K\<lparr>get_fock := \<lambda>m dm g. failing ''get_fock''\<rparr>) ex_mag
       None None None PyNone 0 = (Inl (Raised ''get_fock''), 3)"
    by (rule T [THEN conjunct2, THEN conjunct2, THEN conjunct2, THEN conjunct1, rule_format,
          OF c0 c1 occ da db]) (simp add: ex_defs)
  have h1: "(case None of
       None \<Rightarrow> first_order_fock ex_E (ex_K\<lparr>get_ovlp := f\<rparr>) ex_mag None
                 (Logger (stdout ex_mag) (verbose ex_mag)) (0, 1) ([[1], [0]], [[1], [2]])
     | Some h \<Rightarrow> ret (h, (0, 1))) 2
     = (Inr (([[[1], [2]], [[1], [2]], [[1], [2]]],
              [[[5], [2]], [[4], [1]], [[25], [10]]]), (0, 1)), 4)" for f
    by (simp add: first_order_fock_def ex_defs eff_defs array_defs)
  have five: "para ex_E (ex_K\<lparr>get_ovlp := \<lambda>m ml g. failing ''get_ovlp''\<rparr>) ex_mag
       None None None PyNone 0 = (Inl (Raised ''get_ovlp''), 5)"
    by (rule T [THEN conjunct2, THEN conjunct2, THEN conjunct2, THEN conjunct2, THEN conjunct1,
          rule_format, OF c0 c1 occ h1]) (simp_all add: ex_defs)
  have s1: "(case None of
       None \<Rightarrow> first_order_ovlp ex_K ex_mag None ([[1], [0]], [[1], [2]])
     | Some s \<Rightarrow> ret s) 4
     = (Inr ([[[1], [2]], [[0], [1]], [[1], [3]]],
             [[[5], [2]], [[4], [1]], [[9], [3]]]), 5)"
    by (simp add: first_order_ovlp_def ex_defs eff_defs array_defs)
  have c0': "time_clock (ex_E\<lparr>nmr_solve_mo1 := f\<rparr>) 0 = (Inr 0, 1)"
    and c1': "time_time (ex_E\<lparr>nmr_solve_mo1 := f\<rparr>) 1 = (Inr 1, 2)" for f
    by (simp_all add: ex_defs)
  have h1': "(case None of
       None \<Rightarrow> first_order_fock (ex_E\<lparr>nmr_solve_mo1 := f\<rparr>) ex_K ex_mag None
                 (Logger (stdout ex_mag) (verbose ex_mag)) (0, 1) ([[1], [0]], [[1], [2]])
     | Some h \<Rightarrow> ret (h, (0, 1))) 2
     = (Inr (([[[1], [2]], [[1], [2]], [[1], [2]]],
              [[[5], [2]], [[4], [1]], [[25], [10]]]), (0, 1)), 4)" for f
    by (simp add: first_order_fock_def ex_defs eff_defs array_defs)
  have six: "para (ex_E\<lparr>nmr_solve_mo1 := \<lambda>m e c o' h s f. failing ''solve_mo1''\<rparr>) ex_K ex_mag
       None None None PyNone 0 = (Inl (Raised ''solve_mo1''), 6)"
    by (rule T [THEN conjunct2, THEN conjunct2, THEN conjunct2, THEN conjunct2, THEN conjunct2,
          rule_format, OF c0' c1' occ h1' s1]) (simp add: ex_defs)
  from one two three four five six show ?thesis
    by blast
qed

subsection \<open>What the module reuses\<close>

text \<open>
  \<^verbatim>\<open>para\<close> reads two methods of the class it is given, and nothing else of it.
\<close>

lemma para_depends_on_two_methods:
  "get_fock K = get_fock K' \<Longrightarrow> get_ovlp K = get_ovlp K' \<Longrightarrow>
   para E K magobj g h1 s1 v = para E K' magobj g h1 s1 v"
  by (cases h1; cases s1) (simp_all add: para_def first_order_fock_def first_order_ovlp_def)

text \<open>
  Claim C5. The class \<^verbatim>\<open>Magnetizability\<close> is the restricted-HF class with three
  attributes set: its \<^verbatim>\<open>get_fock\<close> is \<^verbatim>\<open>uhf_nmr.get_fock\<close>, its \<^verbatim>\<open>dia\<close> and
  \<^verbatim>\<open>para\<close> are the functions of this module, and \<^verbatim>\<open>get_ovlp\<close> is the parent's.
  The one-electron term of \<^verbatim>\<open>dia\<close> is what \<^verbatim>\<open>rhf_mag._get_dia_1e\<close> returns for
  the density \<open>dm0\<close>, the sum of the densities of the two spin channels, and the
  energy-weighted density \<open>dme0\<close>, the sum of the two energy-weighted ones.
\<close>

theorem magnetizability_reuses_rhf_and_nmr:
  "get_fock (Magnetizability E) = nmr_get_fock E
   \<and> get_ovlp (Magnetizability E) = get_ovlp (rhf_Magnetizability E)
   \<and> dia_attr (Magnetizability E) = dia E
   \<and> para_attr (Magnetizability E) = para E (Magnetizability E)
   \<and> (occ_orbs (scf magobj) = Inr (orboa, orbob) \<longrightarrow>
      dia_dens (scf magobj) = Inr (dm0, dm0a, dm0b, dme0) \<longrightarrow>
      dot_T orboa orboa = Inr dm0a \<and> dot_T orbob orbob = Inr dm0b
      \<and> madd dm0a dm0b = Inr dm0
      \<and> (\<exists>ea eb oea oeb dme0a dme0b.
            vmask (fst (mo_energy (scf magobj))) (occupied (fst (mo_occ (scf magobj)))) = Inr ea
          \<and> vmask (snd (mo_energy (scf magobj))) (occupied (snd (mo_occ (scf magobj)))) = Inr eb
          \<and> scale_cols orboa ea = Inr oea \<and> scale_cols orbob eb = Inr oeb
          \<and> dot_T oea orboa = Inr dme0a \<and> dot_T oeb orbob = Inr dme0b
          \<and> madd dme0a dme0b = Inr dme0)
      \<and> dia E magobj g w =
          (case rhf_get_dia_1e E magobj g dm0 dme0 w of
             (Inl e, w') \<Rightarrow> (Inl e, w')
           | (Inr a, w') \<Rightarrow>
               bindE (case g of
                        None \<Rightarrow> dia_2e E (mol magobj) dm0 dm0a dm0b (ravel a)
                      | Some _ \<Rightarrow> ret (ravel a))
                 (\<lambda>e2. liftP (bindP (reshape33 e2) (\<lambda>r. Inr (mneg r)))) w'))"
proof (intro conjI impI)
  have "para E ((rhf_Magnetizability E)\<lparr>get_fock := nmr_get_fock E\<rparr>) m g' h s v
      = para E (Magnetizability E) m g' h s v" for m g' h s v
    by (rule para_depends_on_two_methods) (simp_all add: Magnetizability_def Let_def)
  then have "para E ((rhf_Magnetizability E)\<lparr>get_fock := nmr_get_fock E\<rparr>)
      = para E (Magnetizability E)"
    by (intro ext) simp
  moreover have "para_attr (Magnetizability E)
      = para E ((rhf_Magnetizability E)\<lparr>get_fock := nmr_get_fock E\<rparr>)"
    by (simp add: Magnetizability_def Let_def)
  ultimately show "para_attr (Magnetizability E) = para E (Magnetizability E)"
    by simp
next
  assume o: "occ_orbs (scf magobj) = Inr (orboa, orbob)"
    and d: "dia_dens (scf magobj) = Inr (dm0, dm0a, dm0b, dme0)"
  from d o show "dot_T orboa orboa = Inr dm0a"
    by (auto simp: dia_dens_def bindP_def split: sum.splits)
  from d o show "dot_T orbob orbob = Inr dm0b"
    by (auto simp: dia_dens_def bindP_def split: sum.splits)
  from d o show "madd dm0a dm0b = Inr dm0"
    by (auto simp: dia_dens_def bindP_def split: sum.splits)
  from d o show "\<exists>ea eb oea oeb dme0a dme0b.
            vmask (fst (mo_energy (scf magobj))) (occupied (fst (mo_occ (scf magobj)))) = Inr ea
          \<and> vmask (snd (mo_energy (scf magobj))) (occupied (snd (mo_occ (scf magobj)))) = Inr eb
          \<and> scale_cols orboa ea = Inr oea \<and> scale_cols orbob eb = Inr oeb
          \<and> dot_T oea orboa = Inr dme0a \<and> dot_T oeb orbob = Inr dme0b
          \<and> madd dme0a dme0b = Inr dme0"
    by (auto simp: dia_dens_def bindP_def split: sum.splits)
  from d show "dia E magobj g w =
          (case rhf_get_dia_1e E magobj g dm0 dme0 w of
             (Inl e, w') \<Rightarrow> (Inl e, w')
           | (Inr a, w') \<Rightarrow>
               bindE (case g of
                        None \<Rightarrow> dia_2e E (mol magobj) dm0 dm0a dm0b (ravel a)
                      | Some _ \<Rightarrow> ret (ravel a))
                 (\<lambda>e2. liftP (bindP (reshape33 e2) (\<lambda>r. Inr (mneg r)))) w')"
    by (simp add: dia_def eff_defs bindP_def split: prod.splits sum.splits)
qed (simp_all add: Magnetizability_def Let_def)

theorem magnetizability_reuses_rhf_and_nmr_witness:
  "get_fock (Magnetizability ex_E) = get_fock ex_K
   \<and> madd [[1, 0], [0, 0]] [[1, 2], [2, 4]] = Inr [[2, 2], [2, 4]]
   \<and> dia ex_E ex_mag (Some (0, 0, 1)) 0
       = (Inr [[- 1, - 2, - 3], [- 4, - 5, - 6], [- 7, - 8, - 9]], 1)"
proof -
  have dens: "dia_dens (scf ex_mag)
      = Inr ([[2, 2], [2, 4]], [[1, 0], [0, 0]], [[1, 2], [2, 4]], [[- 4, - 6], [- 6, - 12]])"
    by (simp add: ex_defs array_defs)
  have occ: "occ_orbs (scf ex_mag) = Inr ([[1], [0]], [[1], [2]])"
    by (simp add: ex_defs array_defs)
  note T = magnetizability_reuses_rhf_and_nmr
  note D = T [THEN conjunct2, THEN conjunct2, THEN conjunct2, THEN conjunct2,
    rule_format, OF occ dens]
  have a: "get_fock (Magnetizability ex_E) = get_fock ex_K"
    using T [THEN conjunct1, of ex_E] by (simp add: ex_defs)
  have b: "madd [[1, 0], [0, 0]] [[1, 2], [2, 4]] = Inr [[2, 2], [2, 4]]"
    by (rule D [THEN conjunct2, THEN conjunct2, THEN conjunct1])
  have c: "dia ex_E ex_mag (Some (0, 0, 1)) 0
       = (Inr [[- 1, - 2, - 3], [- 4, - 5, - 6], [- 7, - 8, - 9]], 1)"
    using D [THEN conjunct2, THEN conjunct2, THEN conjunct2, THEN conjunct2,
        of ex_E "Some (0, 0, 1)" 0]
    by (simp add: ex_defs eff_defs array_defs)
  from a b c show ?thesis
    by blast
qed

subsection \<open>The first-order Fock and overlap matrices\<close>

text \<open>
  The contraction \<^verbatim>\<open>'xpq,pi,qj->xij'\<close> with the conjugated coefficients is, component
  by component, the product of the conjugate transpose of the coefficients, the matrix
  and the occupied orbitals.
\<close>

lemma sumn_sum: "sumn n f = sum f {..<n}"
  by (simp add: sumn_def interv_sum_list_conv_sum_set_nat atLeast0LessThan)

lemma is_mat_nth: "is_mat n m A \<Longrightarrow> i < n \<Longrightarrow> length (A ! i) = m"
  by (simp add: is_mat_def list_all_length)

lemma is_mat_ncols: "is_mat n m A \<Longrightarrow> 0 < n \<Longrightarrow> ncols A = m"
  by (cases A) (simp_all add: is_mat_def ncols_def)

lemma triple_sum:
  fixes h :: "nat \<Rightarrow> nat \<Rightarrow> complex"
  shows "(\<Sum>p<P. \<Sum>q<Q. h p q * c p * d q) = (\<Sum>q<Q. (\<Sum>p<P. c p * h p q) * d q)"
proof -
  have "(\<Sum>q<Q. (\<Sum>p<P. c p * h p q) * d q) = (\<Sum>q<Q. \<Sum>p<P. h p q * c p * d q)"
    by (intro sum.cong refl) (simp add: sum_distrib_right, intro sum.cong refl, simp add: mult_ac)
  also have "\<dots> = (\<Sum>p<P. \<Sum>q<Q. h p q * c p * d q)"
    by (rule sum.swap)
  finally show ?thesis by simp
qed

lemma to_mo_entries:
  assumes C: "is_mat P I C" and I: "ncols C = I" and O: "is_mat Q J orbo" and J: "ncols orbo = J"
    and M: "is_mat P Q M"
  shows "to_mo C M orbo =
     map (\<lambda>i. map (\<lambda>j. sumn P (\<lambda>p. sumn Q (\<lambda>q. M ! p ! q * cnj (C ! p ! i) * orbo ! q ! j)))
       [0..<J]) [0..<I]"
proof (cases "P = 0")
  case True
  with C I have "I = 0" by (simp add: is_mat_def ncols_def)
  then show ?thesis using I by (simp add: to_mo_def matmul_def ctranspose_def)
next
  case False
  then have ncM: "ncols M = Q" using M by (simp add: is_mat_ncols)
  have lC: "length C = P" and lM: "length M = P" and lO: "length orbo = Q"
    using C M O by (simp_all add: is_mat_def)
  show ?thesis
    unfolding to_mo_def matmul_def ctranspose_def
    by (simp add: I J ncM lC lM lO sumn_sum triple_sum cong: map_cong)
qed


lemma rect_ncols: "list_all (\<lambda>r. length r = m) A \<Longrightarrow> is_mat (length A) (ncols A) A"
  by (cases A) (simp_all add: is_mat_def ncols_def list_all_iff)

lemma length_pick: "length r = length msk \<Longrightarrow> length (pick r msk) = length (filter id msk)"
  unfolding pick_def by (induction r msk rule: list_induct2) simp_all

lemma colmask_rect:
  assumes "colmask A msk = Inr B"
  shows "is_mat (length A) (ncols A) A" and "is_mat (length A) (ncols B) B"
proof -
  from assms have all: "list_all (\<lambda>r. length r = length msk) A"
    and B: "B = map (\<lambda>r. pick r msk) A"
    by (simp_all add: colmask_def split: if_splits)
  from all show "is_mat (length A) (ncols A) A"
    by (rule rect_ncols)
  from all have "list_all (\<lambda>r. length r = length (filter id msk)) B"
    by (simp add: B list_all_iff length_pick)
  then have "is_mat (length B) (ncols B) B"
    by (rule rect_ncols)
  then show "is_mat (length A) (ncols B) B"
    by (simp add: B)
qed

lemma mo_transform_to_mo:
  assumes C: "is_mat P (ncols C) C" and O: "is_mat Q (ncols orbo) orbo" and h: "is_ten3 X P Q h"
  shows "mo_transform h C orbo = Inr (map (\<lambda>M. to_mo C M orbo) h)"
proof -
  have lC: "length C = P" and lO: "length orbo = Q" and lh: "length h = X"
    using C O h by (simp_all add: is_mat_def is_ten3_def)
  have nc: "ncols (mconj C) = ncols C"
    by (cases C) (simp_all add: ncols_def mconj_def)
  have mC: "is_mat P (ncols C) (mconj C)"
    using C by (simp add: is_mat_def mconj_def list_all_iff)
  have e: "sumn P (\<lambda>p. sumn Q (\<lambda>q. M ! p ! q * mconj C ! p ! i * orbo ! q ! j))
      = sumn P (\<lambda>p. sumn Q (\<lambda>q. M ! p ! q * cnj (C ! p ! i) * orbo ! q ! j))"
    if "i < ncols C" for M i j
    unfolding sumn_sum
    using that C by (intro sum.cong refl) (simp add: mconj_def is_mat_nth lC)
  have "map (\<lambda>hx. map (\<lambda>i. map (\<lambda>j.
            sumn P (\<lambda>p. sumn Q (\<lambda>q. hx ! p ! q * mconj C ! p ! i * orbo ! q ! j)))
            [0..<ncols orbo]) [0..<ncols C]) h
      = map (\<lambda>M. to_mo C M orbo) h"
  proof (rule map_cong [OF refl])
    fix M assume "M \<in> set h"
    with h have M: "is_mat P Q M"
      by (simp add: is_ten3_def list_all_iff)
    show "map (\<lambda>i. map (\<lambda>j.
            sumn P (\<lambda>p. sumn Q (\<lambda>q. M ! p ! q * mconj C ! p ! i * orbo ! q ! j)))
            [0..<ncols orbo]) [0..<ncols C] = to_mo C M orbo"
      unfolding to_mo_entries [OF C refl O refl M]
      by (rule map_cong [OF refl]) (simp add: e)
  qed
  then show ?thesis
    using mC O h
    by (simp add: mo_transform_def lib_einsum_xpq_pi_qj_def Let_def nc lO lh is_mat_def [of P _ "mconj C"])
qed

text \<open>
  Claim C3. When \<^verbatim>\<open>para\<close> is called without \<open>h1\<close> and without \<open>s1\<close>, it selects the
  occupied orbitals of each spin channel (the columns with a positive occupation), calls
  \<^verbatim>\<open>magobj.get_fock\<close> on the two zeroth-order densities and \<^verbatim>\<open>magobj.get_ovlp\<close> on the
  molecule, and transforms every component \<open>M\<close> of what they return to
  \<open>conj(mo_coeff)\<^sup>T * M * orb_occ\<close>, for both channels; the solver receives these
  matrices. The atomic-orbital arrays are assumed square of the size of the basis.
\<close>

theorem para_assembles_h1_s1:
  assumes c0: "time_clock E w0 = (Inr t0, wa)" and c1: "time_time E wa = (Inr t1, w)"
    and occ: "occ_orbs (scf magobj) = Inr (orboa, orbob)"
    and da: "dot_T orboa orboa = Inr dm0a" and db: "dot_T orbob orbob = Inr dm0b"
    and f: "get_fock K magobj (dm0a, dm0b) g w = (Inr (Fa, Fb), w1)"
    and Fa: "is_ten3 (length Fa) (length (fst (mo_coeff (scf magobj))))
               (length (fst (mo_coeff (scf magobj)))) Fa"
    and Fb: "is_ten3 (length Fb) (length (snd (mo_coeff (scf magobj))))
               (length (snd (mo_coeff (scf magobj)))) Fb"
    and t: "log_timer E (Logger (stdout magobj) (verbose magobj))
               ''first order Fock matrix'' (t0, t1) w1 = (Inr cput1, w2)"
    and s: "get_ovlp K magobj (mol magobj) g w2 = (Inr S, w3)"
    and S: "is_ten3 (length S) (length (fst (mo_coeff (scf magobj))))
               (length (fst (mo_coeff (scf magobj)))) S"
    and ab: "length (snd (mo_coeff (scf magobj))) = length (fst (mo_coeff (scf magobj)))"
  shows "orboa = map (\<lambda>r. pick r (occupied (fst (mo_occ (scf magobj)))))
                   (fst (mo_coeff (scf magobj)))
    \<and> orbob = map (\<lambda>r. pick r (occupied (snd (mo_occ (scf magobj)))))
                   (snd (mo_coeff (scf magobj)))
    \<and> first_order_fock E K magobj g (Logger (stdout magobj) (verbose magobj)) (t0, t1)
          (orboa, orbob) w
        = (Inr ((map (\<lambda>M. to_mo (fst (mo_coeff (scf magobj))) M orboa) Fa,
                 map (\<lambda>M. to_mo (snd (mo_coeff (scf magobj))) M orbob) Fb), cput1), w2)
    \<and> first_order_ovlp K magobj g (orboa, orbob) w2
        = (Inr (map (\<lambda>M. to_mo (fst (mo_coeff (scf magobj))) M orboa) S,
                map (\<lambda>M. to_mo (snd (mo_coeff (scf magobj))) M orbob) S), w3)
    \<and> para E K magobj g None None v w0
        = bindE (nmr_solve_mo1 E magobj (mo_energy (scf magobj)) (mo_coeff (scf magobj))
                   (mo_occ (scf magobj))
                   (map (\<lambda>M. to_mo (fst (mo_coeff (scf magobj))) M orboa) Fa,
                    map (\<lambda>M. to_mo (snd (mo_coeff (scf magobj))) M orbob) Fb)
                   (map (\<lambda>M. to_mo (fst (mo_coeff (scf magobj))) M orboa) S,
                    map (\<lambda>M. to_mo (snd (mo_coeff (scf magobj))) M orbob) S)
                   (cphf magobj))
            (\<lambda>(mo1, mo_e1). bindE (logger_timer E magobj ''solving mo1 eqn'' cput1)
               (\<lambda>c. liftP (para_contract (scf magobj) mo1 mo_e1
                   (map (\<lambda>M. to_mo (fst (mo_coeff (scf magobj))) M orboa) Fa,
                    map (\<lambda>M. to_mo (snd (mo_coeff (scf magobj))) M orbob) Fb)
                   (map (\<lambda>M. to_mo (fst (mo_coeff (scf magobj))) M orboa) S,
                    map (\<lambda>M. to_mo (snd (mo_coeff (scf magobj))) M orbob) S)))) w3"
proof -
  let ?Ca = "fst (mo_coeff (scf magobj))" and ?Cb = "snd (mo_coeff (scf magobj))"
  from occ have ma: "colmask ?Ca (occupied (fst (mo_occ (scf magobj)))) = Inr orboa"
    and mb: "colmask ?Cb (occupied (snd (mo_occ (scf magobj)))) = Inr orbob"
    by (auto simp: occ_orbs_def bindP_def split: sum.splits)
  have oa: "orboa = map (\<lambda>r. pick r (occupied (fst (mo_occ (scf magobj))))) ?Ca"
    using ma by (simp add: colmask_def split: if_splits)
  have ob: "orbob = map (\<lambda>r. pick r (occupied (snd (mo_occ (scf magobj))))) ?Cb"
    using mb by (simp add: colmask_def split: if_splits)
  have la: "length orboa = length ?Ca" and lb: "length orbob = length ?Cb"
    by (simp_all add: oa ob)
  note ra = colmask_rect [OF ma] and rb = colmask_rect [OF mb]
  have Oa: "is_mat (length ?Ca) (ncols orboa) orboa" and Ob: "is_mat (length ?Cb) (ncols orbob) orbob"
    using ra rb by simp_all
  have ha: "mo_transform Fa ?Ca orboa = Inr (map (\<lambda>M. to_mo ?Ca M orboa) Fa)"
    by (rule mo_transform_to_mo [OF ra(1) Oa Fa])
  have hb: "mo_transform Fb ?Cb orbob = Inr (map (\<lambda>M. to_mo ?Cb M orbob) Fb)"
    by (rule mo_transform_to_mo [OF rb(1) Ob Fb])
  have sa: "mo_transform S ?Ca orboa = Inr (map (\<lambda>M. to_mo ?Ca M orboa) S)"
    by (rule mo_transform_to_mo [OF ra(1) Oa S])
  have sb: "mo_transform S ?Cb orbob = Inr (map (\<lambda>M. to_mo ?Cb M orbob) S)"
    using S by (intro mo_transform_to_mo [OF rb(1) Ob]) (simp add: ab)
  have fock: "first_order_fock E K magobj g (Logger (stdout magobj) (verbose magobj)) (t0, t1)
          (orboa, orbob) w
        = (Inr ((map (\<lambda>M. to_mo ?Ca M orboa) Fa, map (\<lambda>M. to_mo ?Cb M orbob) Fb), cput1), w2)"
    by (simp add: first_order_fock_def eff_defs bindP_def da db f ha hb t)
  have ovlp: "first_order_ovlp K magobj g (orboa, orbob) w2
        = (Inr (map (\<lambda>M. to_mo ?Ca M orboa) S, map (\<lambda>M. to_mo ?Cb M orbob) S), w3)"
    by (simp add: first_order_ovlp_def eff_defs bindP_def s sa sb)
  have "para E K magobj g None None v w0
        = bindE (nmr_solve_mo1 E magobj (mo_energy (scf magobj)) (mo_coeff (scf magobj))
                   (mo_occ (scf magobj))
                   (map (\<lambda>M. to_mo ?Ca M orboa) Fa, map (\<lambda>M. to_mo ?Cb M orbob) Fb)
                   (map (\<lambda>M. to_mo ?Ca M orboa) S, map (\<lambda>M. to_mo ?Cb M orbob) S)
                   (cphf magobj))
            (\<lambda>(mo1, mo_e1). bindE (logger_timer E magobj ''solving mo1 eqn'' cput1)
               (\<lambda>c. liftP (para_contract (scf magobj) mo1 mo_e1
                   (map (\<lambda>M. to_mo ?Ca M orboa) Fa, map (\<lambda>M. to_mo ?Cb M orbob) Fb)
                   (map (\<lambda>M. to_mo ?Ca M orboa) S, map (\<lambda>M. to_mo ?Cb M orbob) S)))) w3"
    unfolding para_def Let_def
    using c0 c1 occ fock ovlp by (simp add: eff_defs)
  with oa ob fock ovlp show ?thesis
    by blast
qed

theorem para_assembles_h1_s1_witness:
  "first_order_ovlp ex_K ex_mag_c None ([[1], [0]], [[1], [\<i>]]) 4
     = (Inr ([[[1], [2]], [[0], [1]], [[1], [3]]],
             [[[2], [\<i>]], [[0], [1]], [[2], [1 + \<i>]]]), 5)"
proof -
  have c0: "time_clock ex_E 0 = (Inr 0, 1)" and c1: "time_time ex_E 1 = (Inr 1, 2)"
    by (simp_all add: ex_defs)
  have occ: "occ_orbs (scf ex_mag_c) = Inr ([[1], [0]], [[1], [\<i>]])"
    by (simp add: ex_mag_c_def ex_defs array_defs)
  have da: "dot_T [[1], [0]] [[1], [0]] = Inr [[1, 0], [0, 0]]"
    by (simp add: array_defs)
  have db: "dot_T [[1], [\<i>]] [[1], [\<i>]] = Inr [[1, \<i>], [\<i>, - 1]]"
    by (simp add: array_defs)
  have f: "get_fock ex_K ex_mag_c ([[1, 0], [0, 0]], [[1, \<i>], [\<i>, - 1]]) None 2
      = (Inr ([[[1, 0], [0, 0]], [[1, 0], [0, 0]], [[1, 0], [0, 1]]],
              [[[1, 0], [0, 1]], [[0, 1], [1, 0]], [[1, \<i>], [\<i>, - 1]]]), 3)"
    by (simp add: ex_defs)
  have Fa: "is_ten3 (length [[[1, 0], [0, 0]], [[1, 0], [0, 0]], [[1, 0], [0, 1 :: complex]]])
      (length (fst (mo_coeff (scf ex_mag_c)))) (length (fst (mo_coeff (scf ex_mag_c))))
      [[[1, 0], [0, 0]], [[1, 0], [0, 0]], [[1, 0], [0, 1]]]"
    by (simp add: ex_mag_c_def ex_defs array_defs)
  have Fb: "is_ten3 (length [[[1, 0], [0, 1]], [[0, 1], [1, 0]], [[1, \<i>], [\<i>, - 1]]])
      (length (snd (mo_coeff (scf ex_mag_c)))) (length (snd (mo_coeff (scf ex_mag_c))))
      [[[1, 0], [0, 1]], [[0, 1], [1, 0]], [[1, \<i>], [\<i>, - 1]]]"
    by (simp add: ex_mag_c_def ex_defs array_defs)
  have t: "log_timer ex_E (Logger (stdout ex_mag_c) (verbose ex_mag_c))
      ''first order Fock matrix'' (0, 1) 3 = (Inr (0, 1), 4)"
    by (simp add: ex_defs)
  have s: "get_ovlp ex_K ex_mag_c (mol ex_mag_c) None 4
      = (Inr [[[1, 0], [0, 1]], [[0, 1], [1, 0]], [[1, 1], [1, 1]]], 5)"
    by (simp add: ex_defs)
  have S: "is_ten3 (length [[[1, 0], [0, 1]], [[0, 1], [1, 0]], [[1, 1], [1, 1 :: complex]]])
      (length (fst (mo_coeff (scf ex_mag_c)))) (length (fst (mo_coeff (scf ex_mag_c))))
      [[[1, 0], [0, 1]], [[0, 1], [1, 0]], [[1, 1], [1, 1]]]"
    by (simp add: ex_mag_c_def ex_defs array_defs)
  have ab: "length (snd (mo_coeff (scf ex_mag_c))) = length (fst (mo_coeff (scf ex_mag_c)))"
    by (simp add: ex_mag_c_def ex_defs)
  note D = para_assembles_h1_s1 [OF c0 c1 occ da db f Fa Fb t s S ab]
  from D [THEN conjunct2, THEN conjunct2, THEN conjunct2, THEN conjunct1]
  show ?thesis
    by (simp add: ex_mag_c_def ex_defs to_mo_def matmul_def ctranspose_def array_defs
        algebra_simps)
qed

subsection \<open>Determinism\<close>

lemma same_outcome_bind:
  assumes "same_outcome R m m'"
    and "\<And>x x'. R x x' \<Longrightarrow> same_outcome S (f x) (f' x')"
  shows "same_outcome S (bindE m f) (bindE m' f')"
  unfolding same_outcome_def
proof (intro allI)
  fix w w'
  from assms(1) have r: "rel_sum (=) R (fst (m w)) (fst (m' w'))"
    by (simp add: same_outcome_def)
  show "rel_sum (=) S (fst (bindE m f w)) (fst (bindE m' f' w'))"
  proof (cases "m w")
    case (Pair a u)
    note mw = this
    show ?thesis
    proof (cases "m' w'")
      case (Pair a' u')
      show ?thesis
      proof (cases a)
        case (Inl e)
        with r mw Pair show ?thesis
          by (cases a') (simp_all add: bindE_def)
      next
        case (Inr x)
        with r mw Pair obtain x' where a': "a' = Inr x'" and R: "R x x'"
          by (cases a') simp_all
        from assms(2) [OF R] have "rel_sum (=) S (fst (f x u)) (fst (f' x' u'))"
          by (simp add: same_outcome_def)
        with Inr a' mw Pair show ?thesis
          by (simp add: bindE_def)
      qed
    qed
  qed
qed

lemma same_outcome_bind_eq:
  assumes "same_outcome (=) m m" and "\<And>x. same_outcome S (f x) (f' x)"
  shows "same_outcome S (bindE m f) (bindE m f')"
  using assms(1) by (rule same_outcome_bind) (simp add: assms(2))

lemma same_outcome_bind_any:
  assumes "same_outcome (\<lambda>_ _. True) m m'" and "\<And>x x'. same_outcome S (f x) (f' x')"
  shows "same_outcome S (bindE m f) (bindE m' f')"
  using assms(1) by (rule same_outcome_bind) (simp add: assms(2))

lemma same_outcome_liftP: "same_outcome (=) (liftP r) (liftP r)"
  by (cases r) (simp_all add: same_outcome_def liftP_def)

lemma same_outcome_ret: "R x y \<Longrightarrow> same_outcome R (ret x) (ret y)"
  by (simp add: same_outcome_def ret_def)

lemma same_outcome_eqD: "same_outcome (=) m m' \<Longrightarrow> fst (m w) = fst (m' w')"
  by (simp add: same_outcome_def sum.rel_eq)

lemma dia_same_outcome:
  assumes d: "\<And>m g d1 d2. same_outcome (=) (rhf_get_dia_1e E m g d1 d2) (rhf_get_dia_1e E m g d1 d2)"
    and j: "\<And>ml dms scr intor aosym comp hermi.
              same_outcome (=) (jk_get_jk E ml dms scr intor aosym comp hermi)
                (jk_get_jk E ml dms scr intor aosym comp hermi)"
  shows "same_outcome (=) (dia E magobj g) (dia E magobj g)"
proof -
  have gg: "same_outcome (=) (dia_gg1 E ml dm0 dm0a dm0b e2) (dia_gg1 E ml dm0 dm0a dm0b e2)"
    for ml dm0 dm0a dm0b e2
    unfolding dia_gg1_def
    by (intro same_outcome_bind_eq same_outcome_liftP j)
  have g2: "same_outcome (=) (dia_g1g2 E ml dm0a dm0b e2) (dia_g1g2 E ml dm0a dm0b e2)"
    for ml dm0a dm0b e2
    unfolding dia_g1g2_def
    by (intro same_outcome_bind_eq same_outcome_liftP j)
  have e: "same_outcome (=) (dia_2e E ml dm0 dm0a dm0b e2) (dia_2e E ml dm0 dm0a dm0b e2)"
    for ml dm0 dm0a dm0b e2
    unfolding dia_2e_def
    by (intro same_outcome_bind_eq gg g2)
  have c: "same_outcome (=)
      (case g of None \<Rightarrow> dia_2e E ml dm0 dm0a dm0b v | Some _ \<Rightarrow> ret v)
      (case g of None \<Rightarrow> dia_2e E ml dm0 dm0a dm0b v | Some _ \<Rightarrow> ret v)"
    for ml dm0 dm0a dm0b v
    by (cases g) (simp_all add: e same_outcome_ret)
  show ?thesis
    unfolding dia_def split_def
    by (intro same_outcome_bind_eq same_outcome_liftP d c same_outcome_ret refl)
qed

lemma para_same_outcome:
  assumes s: "\<And>m e c o' h s f. same_outcome (=) (nmr_solve_mo1 E m e c o' h s f)
                (nmr_solve_mo1 E m e c o' h s f)"
    and gf: "\<And>m dm g. same_outcome (=) (get_fock K m dm g) (get_fock K m dm g)"
    and go: "\<And>m ml g. same_outcome (=) (get_ovlp K m ml g) (get_ovlp K m ml g)"
    and tc: "same_outcome (\<lambda>_ _. True) (time_clock E) (time_clock E)"
    and tt: "same_outcome (\<lambda>_ _. True) (time_time E) (time_time E)"
    and lt: "\<And>l msg c c'. same_outcome (\<lambda>_ _. True) (log_timer E l msg c) (log_timer E l msg c')"
    and mt: "\<And>m msg c c'. same_outcome (\<lambda>_ _. True) (logger_timer E m msg c)
                (logger_timer E m msg c')"
  shows "same_outcome (=) (para E K magobj g h1 s1 v) (para E K magobj g h1 s1 v)"
proof -
  have ff: "same_outcome (\<lambda>x y. fst x = fst y)
      (first_order_fock E K magobj g lg c orbo) (first_order_fock E K magobj g lg c' orbo)"
    for lg c c' orbo
    unfolding first_order_fock_def
    by (intro same_outcome_bind_eq same_outcome_liftP gf same_outcome_bind_any lt
        same_outcome_ret) simp
  have fo: "same_outcome (=) (first_order_ovlp K magobj g orbo) (first_order_ovlp K magobj g orbo)"
    for orbo
    unfolding first_order_ovlp_def
    by (intro same_outcome_bind_eq same_outcome_liftP go)
  have h: "same_outcome (\<lambda>x y. fst x = fst y)
      (case h1 of None \<Rightarrow> first_order_fock E K magobj g lg c orbo | Some h \<Rightarrow> ret (h, c))
      (case h1 of None \<Rightarrow> first_order_fock E K magobj g lg c' orbo | Some h \<Rightarrow> ret (h, c'))"
    for lg c c' orbo
    by (cases h1) (simp_all add: ff same_outcome_ret)
  have so: "same_outcome (=)
      (case s1 of None \<Rightarrow> first_order_ovlp K magobj g orbo | Some s \<Rightarrow> ret s)
      (case s1 of None \<Rightarrow> first_order_ovlp K magobj g orbo | Some s \<Rightarrow> ret s)"
    for orbo
    by (cases s1) (simp_all add: fo same_outcome_ret)
  have tail: "same_outcome (=)
      (bindE (nmr_solve_mo1 E magobj e c o' h s' f)
         (\<lambda>(mo1, mo_e1). bindE (logger_timer E magobj msg cp)
            (\<lambda>cput1. liftP (para_contract mf mo1 mo_e1 h s'))))
      (bindE (nmr_solve_mo1 E magobj e c o' h s' f)
         (\<lambda>(mo1, mo_e1). bindE (logger_timer E magobj msg cp')
            (\<lambda>cput1. liftP (para_contract mf mo1 mo_e1 h s'))))"
    for e c o' h s' f msg cp cp' mf
    unfolding split_def
    by (intro same_outcome_bind_eq s same_outcome_bind_any mt same_outcome_liftP)
  show ?thesis
    unfolding para_def Let_def
    apply (rule same_outcome_bind_any [OF tc])
    apply (rule same_outcome_bind_any [OF tt])
    apply (rule same_outcome_bind_eq [OF same_outcome_liftP])
    apply (rule same_outcome_bind [OF h])
    apply (clarsimp)
    apply (rule same_outcome_bind_eq [OF so])
    apply (rule tail)
    done
qed

text \<open>
  Claim C8. \<^verbatim>\<open>dia\<close> and \<^verbatim>\<open>para\<close> are deterministic and keep no state: two calls
  with the same magnetizability object, SCF data and keyword arguments return the same
  tensor (or raise the same exception) from any two states of the world. What they read
  from the world, the clock, reaches only the timers. The code outside the file is
  taken to be deterministic in the same sense: the integral, Fock, overlap and solver
  routines return values that depend on their arguments only, and the clock and the
  timers may return anything but raise, if they do, whatever the world is.
\<close>

theorem dia_para_deterministic:
  assumes "\<And>m g d1 d2. same_outcome (=) (rhf_get_dia_1e E m g d1 d2) (rhf_get_dia_1e E m g d1 d2)"
    and "\<And>ml dms scr intor aosym comp hermi.
              same_outcome (=) (jk_get_jk E ml dms scr intor aosym comp hermi)
                (jk_get_jk E ml dms scr intor aosym comp hermi)"
    and "\<And>m e c o' h s f. same_outcome (=) (nmr_solve_mo1 E m e c o' h s f)
                (nmr_solve_mo1 E m e c o' h s f)"
    and "\<And>m dm g. same_outcome (=) (get_fock K m dm g) (get_fock K m dm g)"
    and "\<And>m ml g. same_outcome (=) (get_ovlp K m ml g) (get_ovlp K m ml g)"
    and "same_outcome (\<lambda>_ _. True) (time_clock E) (time_clock E)"
    and "same_outcome (\<lambda>_ _. True) (time_time E) (time_time E)"
    and "\<And>l msg c c'. same_outcome (\<lambda>_ _. True) (log_timer E l msg c) (log_timer E l msg c')"
    and "\<And>m msg c c'. same_outcome (\<lambda>_ _. True) (logger_timer E m msg c)
                (logger_timer E m msg c')"
  shows "fst (dia E magobj g w) = fst (dia E magobj g w')
    \<and> fst (para E K magobj g h1 s1 v w) = fst (para E K magobj g h1 s1 v w')"
  using dia_same_outcome [OF assms(1,2)] para_same_outcome [OF assms(3-9)]
  by (simp add: same_outcome_eqD)

theorem dia_para_deterministic_witness:
  "fst (dia ex_E ex_mag None 0) = fst (dia ex_E ex_mag None 7)
   \<and> fst (para ex_E ex_K ex_mag None None None PyNone 0)
     = fst (para ex_E ex_K ex_mag None None None PyNone 7)
   \<and> fst (time_clock ex_E 0) \<noteq> fst (time_clock ex_E 7)"
proof -
  have a: "same_outcome (=) (rhf_get_dia_1e ex_E m g d1 d2) (rhf_get_dia_1e ex_E m g d1 d2)"
    for m g d1 d2
    by (simp add: same_outcome_def ex_defs)
  have b: "same_outcome (=) (jk_get_jk ex_E ml dms scr intor aosym comp hermi)
      (jk_get_jk ex_E ml dms scr intor aosym comp hermi)"
    for ml dms scr intor aosym comp hermi
    by (simp add: same_outcome_def ex_defs)
  have c: "same_outcome (=) (nmr_solve_mo1 ex_E m e c o' h s f) (nmr_solve_mo1 ex_E m e c o' h s f)"
    for m e c o' h s f
    by (simp add: same_outcome_def ex_defs)
  have d: "same_outcome (=) (get_fock ex_K m dm g) (get_fock ex_K m dm g)" for m dm g
    by (simp add: same_outcome_def ex_defs)
  have e: "same_outcome (=) (get_ovlp ex_K m ml g) (get_ovlp ex_K m ml g)" for m ml g
    by (simp add: same_outcome_def ex_defs)
  have f: "same_outcome (\<lambda>_ _. True) (time_clock ex_E) (time_clock ex_E)"
    and g: "same_outcome (\<lambda>_ _. True) (time_time ex_E) (time_time ex_E)"
    by (simp_all add: same_outcome_def ex_defs)
  have h: "same_outcome (\<lambda>_ _. True) (log_timer ex_E l msg c) (log_timer ex_E l msg c')"
    for l msg c c'
    by (simp add: same_outcome_def ex_defs)
  have i: "same_outcome (\<lambda>_ _. True) (logger_timer ex_E m msg c) (logger_timer ex_E m msg c')"
    for m msg c c'
    by (simp add: same_outcome_def ex_defs)
  have "fst (time_clock ex_E 0) \<noteq> fst (time_clock ex_E 7)"
    by (simp add: ex_defs)
  with dia_para_deterministic [where E = ex_E and K = ex_K and magobj = ex_mag and g = None
      and w = 0 and w' = 7 and ?h1.0 = None and ?s1.0 = None and v = PyNone,
      OF a b c d e f g h i]
  show ?thesis
    by simp
qed

subsection \<open>The shape and the entries of the results\<close>

lemma is_mat_square_ncols: "is_mat n n A \<Longrightarrow> ncols A = n"
  by (cases A) (simp_all add: is_mat_def ncols_def)

lemma dot_T_shape:
  assumes "dot_T A B = Inr D"
  shows "is_mat (length A) (length B) D"
  using assms by (auto simp: dot_T_def is_mat_def list_all_iff split: if_splits)

lemma madd_shape:
  assumes "madd A B = Inr C" and "is_mat n m A"
  shows "is_mat n m B" and "is_mat n m C"
proof -
  from assms(1) have s: "same_shape A B" and C: "C = map2 (map2 (+)) A B"
    by (simp_all add: madd_def split: if_splits)
  from s assms(2) have lB: "length B = n"
    by (simp add: same_shape_def is_mat_def)
  show B: "is_mat n m B"
  proof (cases A)
    case Nil
    with s assms(2) show ?thesis by (simp add: same_shape_def is_mat_def)
  next
    case (Cons r rs)
    with assms(2) have "ncols A = m" by (simp add: ncols_def is_mat_def)
    with s lB show ?thesis by (simp add: same_shape_def is_mat_def)
  qed
  show "is_mat n m C"
    using assms(2) B lB by (simp add: C is_mat_def list_all_length)
qed


lemma dia_dens_shapes:
  assumes "dia_dens mf = Inr (dm0, dm0a, dm0b, dme0)"
  shows "is_mat (length (fst (mo_coeff mf))) (length (fst (mo_coeff mf))) dm0a"
    and "is_mat (length (fst (mo_coeff mf))) (length (fst (mo_coeff mf))) dm0b"
    and "is_mat (length (fst (mo_coeff mf))) (length (fst (mo_coeff mf))) dm0"
proof -
  from assms obtain orboa orbob
    where ca: "colmask (fst (mo_coeff mf)) (occupied (fst (mo_occ mf))) = Inr orboa"
      and da: "dot_T orboa orboa = Inr dm0a" and db: "dot_T orbob orbob = Inr dm0b"
      and m: "madd dm0a dm0b = Inr dm0"
    by (auto simp: dia_dens_def occ_orbs_def bindP_def split: sum.splits)
  from ca have "length orboa = length (fst (mo_coeff mf))"
    by (auto simp: colmask_def split: if_splits)
  with dot_T_shape [OF da]
  show a: "is_mat (length (fst (mo_coeff mf))) (length (fst (mo_coeff mf))) dm0a"
    by simp
  from madd_shape [OF m a]
  show "is_mat (length (fst (mo_coeff mf))) (length (fst (mo_coeff mf))) dm0b"
    and "is_mat (length (fst (mo_coeff mf))) (length (fst (mo_coeff mf))) dm0"
    by simp_all
qed

lemma jk_term_ok:
  assumes "i < length vs" and "list_all (is_ten3 k n n) vs" and d: "is_mat n n d"
  shows "jk_term vs i d = Inr (map (contr (vs ! i) d) [0..<k])"
proof -
  from assms(1,2) have v: "is_ten3 k n n (vs ! i)"
    by (simp add: list_all_length)
  then have lv: "length (vs ! i) = k"
    by (simp add: is_ten3_def)
  from d have nc: "ncols d = n" and ld: "length d = n"
    by (simp_all add: is_mat_square_ncols is_mat_def)
  have "map (\<lambda>vx. sumn n (\<lambda>p. sumn n (\<lambda>q. vx ! p ! q * d ! q ! p))) (vs ! i)
      = map (contr (vs ! i) d) [0..<k]"
    by (intro nth_equalityI) (simp_all add: lv contr_def nc ld)
  with assms(1) v d show ?thesis
    by (simp add: jk_term_def item_def bindP_def einsum_xpq_qp_def Let_def nc ld lv)
qed


lemma dia_gg1_ok:
  assumes jk: "jk_get_jk E ml [dm0, dm0a, dm0a, dm0b, dm0b]
              [''ijkl,ji->s2kl'', ''ijkl,jk->s1il'', ''ijkl,li->s1kj'',
               ''ijkl,jk->s1il'', ''ijkl,li->s1kj''] ''int2e_gg1'' ''s4'' 9 1 w = (Inr vs, w')"
    and lv: "length vs = 5" and vs: "list_all (is_ten3 9 n n) vs"
    and d: "is_mat n n dm0" "is_mat n n dm0a" "is_mat n n dm0b"
    and e2: "length e2 = 9"
  shows "dia_gg1 E ml dm0 dm0a dm0b e2 w =
     (Inr (map (\<lambda>k. e2 ! k + contr (vs ! 0) dm0 k
                    - contr (vs ! 1) dm0a k * half - contr (vs ! 2) dm0a k * half
                    - contr (vs ! 3) dm0b k * half - contr (vs ! 4) dm0b k * half) [0..<9]), w')"
proof -
  have t: "jk_term vs 0 dm0 = Inr (map (contr (vs ! 0) dm0) [0..<9])"
    "jk_term vs (Suc 0) dm0a = Inr (map (contr (vs ! 1) dm0a) [0..<9])"
    "jk_term vs 2 dm0a = Inr (map (contr (vs ! 2) dm0a) [0..<9])"
    "jk_term vs 3 dm0b = Inr (map (contr (vs ! 3) dm0b) [0..<9])"
    "jk_term vs 4 dm0b = Inr (map (contr (vs ! 4) dm0b) [0..<9])"
    using jk_term_ok [OF _ vs d(1), of 0] jk_term_ok [OF _ vs d(2), of 1]
      jk_term_ok [OF _ vs d(2), of 2] jk_term_ok [OF _ vs d(3), of 3]
      jk_term_ok [OF _ vs d(3), of 4]
    by (simp_all add: lv del: upt_Suc)
  have "dia_gg1 E ml dm0 dm0a dm0b e2 w =
     (Inr (map2 (-) (map2 (-) (map2 (-) (map2 (-) (map2 (+) e2
             (map (contr (vs ! 0) dm0) [0..<9]))
             (vscale (map (contr (vs ! 1) dm0a) [0..<9]) half))
             (vscale (map (contr (vs ! 2) dm0a) [0..<9]) half))
             (vscale (map (contr (vs ! 3) dm0b) [0..<9]) half))
             (vscale (map (contr (vs ! 4) dm0b) [0..<9]) half)), w')"
    by (simp add: dia_gg1_def eff_defs bindP_def jk t vadd_def vsub_def vscale_def e2
        del: upt_Suc)
  also have "map2 (-) (map2 (-) (map2 (-) (map2 (-) (map2 (+) e2
             (map (contr (vs ! 0) dm0) [0..<9]))
             (vscale (map (contr (vs ! 1) dm0a) [0..<9]) half))
             (vscale (map (contr (vs ! 2) dm0a) [0..<9]) half))
             (vscale (map (contr (vs ! 3) dm0b) [0..<9]) half))
             (vscale (map (contr (vs ! 4) dm0b) [0..<9]) half)
      = map (\<lambda>k. e2 ! k + contr (vs ! 0) dm0 k
                    - contr (vs ! 1) dm0a k * half - contr (vs ! 2) dm0a k * half
                    - contr (vs ! 3) dm0b k * half - contr (vs ! 4) dm0b k * half) [0..<9]"
    by (intro nth_equalityI) (simp_all add: e2 vscale_def del: upt_Suc)
  finally show ?thesis .
qed

lemma dia_g1g2_ok:
  assumes jk: "jk_get_jk E ml [dm0a, dm0b] [''ijkl,jk->s1il'', ''ijkl,jk->s1il'']
              ''int2e_g1g2'' ''aa4'' 9 0 w = (Inr vk, w')"
    and lv: "length vk = 2" and vk: "list_all (is_ten3 9 n n) vk"
    and d: "is_mat n n dm0a" "is_mat n n dm0b"
    and e2: "length e2 = 9"
  shows "dia_g1g2 E ml dm0a dm0b e2 w =
     (Inr (map (\<lambda>k. e2 ! k - contr (vk ! 0) dm0a k - contr (vk ! 1) dm0b k) [0..<9]), w')"
proof -
  have t: "jk_term vk 0 dm0a = Inr (map (contr (vk ! 0) dm0a) [0..<9])"
    "jk_term vk (Suc 0) dm0b = Inr (map (contr (vk ! 1) dm0b) [0..<9])"
    using jk_term_ok [OF _ vk d(1), of 0] jk_term_ok [OF _ vk d(2), of 1]
    by (simp_all add: lv del: upt_Suc)
  have "dia_g1g2 E ml dm0a dm0b e2 w =
     (Inr (map2 (-) (map2 (-) e2 (map (contr (vk ! 0) dm0a) [0..<9]))
             (map (contr (vk ! 1) dm0b) [0..<9])), w')"
    by (simp add: dia_g1g2_def eff_defs bindP_def jk t vsub_def e2 del: upt_Suc)
  also have "map2 (-) (map2 (-) e2 (map (contr (vk ! 0) dm0a) [0..<9]))
             (map (contr (vk ! 1) dm0b) [0..<9])
      = map (\<lambda>k. e2 ! k - contr (vk ! 0) dm0a k - contr (vk ! 1) dm0b k) [0..<9]"
    by (intro nth_equalityI) (simp_all add: e2 del: upt_Suc)
  finally show ?thesis .
qed


lemma neg_reshape33:
  assumes "length v = 9"
  shows "bindE (liftP (reshape33 v)) (\<lambda>r. ret (mneg r)) w
     = (Inr [[- v ! 0, - v ! 1, - v ! 2], [- v ! 3, - v ! 4, - v ! 5],
             [- v ! 6, - v ! 7, - v ! 8]], w)"
  using assms by (simp add: eff_defs reshape33_def mneg_def del: One_nat_def)

lemma dia_Some_ok:
  assumes dens: "dia_dens (scf magobj) = Inr (dm0, dm0a, dm0b, dme0)"
    and one: "rhf_get_dia_1e E magobj (Some c) dm0 dme0 w = (Inr a, w1)"
    and la: "length (ravel a) = 9"
  shows "dia E magobj (Some c) w
     = (Inr [[- ravel a ! 0, - ravel a ! 1, - ravel a ! 2],
             [- ravel a ! 3, - ravel a ! 4, - ravel a ! 5],
             [- ravel a ! 6, - ravel a ! 7, - ravel a ! 8]], w1)"
proof -
  have "dia E magobj (Some c) w = bindE (liftP (reshape33 (ravel a))) (\<lambda>r. ret (mneg r)) w1"
    by (simp add: dia_def dens one eff_defs)
  then show ?thesis
    by (simp only: neg_reshape33 [OF la])
qed

lemma dia_None_ok:
  assumes dens: "dia_dens (scf magobj) = Inr (dm0, dm0a, dm0b, dme0)"
    and one: "rhf_get_dia_1e E magobj None dm0 dme0 w = (Inr a, w1)"
    and la: "length (ravel a) = 9"
    and jk: "jk_get_jk E (mol magobj) [dm0, dm0a, dm0a, dm0b, dm0b]
              [''ijkl,ji->s2kl'', ''ijkl,jk->s1il'', ''ijkl,li->s1kj'',
               ''ijkl,jk->s1il'', ''ijkl,li->s1kj''] ''int2e_gg1'' ''s4'' 9 1 w1 = (Inr vs, w2)"
    and lv: "length vs = 5"
    and vs: "list_all (is_ten3 9 (length (fst (mo_coeff (scf magobj))))
               (length (fst (mo_coeff (scf magobj))))) vs"
    and jk2: "jk_get_jk E (mol magobj) [dm0a, dm0b] [''ijkl,jk->s1il'', ''ijkl,jk->s1il'']
              ''int2e_g1g2'' ''aa4'' 9 0 w2 = (Inr vk, w3)"
    and lk: "length vk = 2"
    and vk: "list_all (is_ten3 9 (length (fst (mo_coeff (scf magobj))))
               (length (fst (mo_coeff (scf magobj))))) vk"
  shows "dia E magobj None w
     = (Inr [[- dia_component (ravel a) vs vk dm0 dm0a dm0b 0,
              - dia_component (ravel a) vs vk dm0 dm0a dm0b 1,
              - dia_component (ravel a) vs vk dm0 dm0a dm0b 2],
             [- dia_component (ravel a) vs vk dm0 dm0a dm0b 3,
              - dia_component (ravel a) vs vk dm0 dm0a dm0b 4,
              - dia_component (ravel a) vs vk dm0 dm0a dm0b 5],
             [- dia_component (ravel a) vs vk dm0 dm0a dm0b 6,
              - dia_component (ravel a) vs vk dm0 dm0a dm0b 7,
              - dia_component (ravel a) vs vk dm0 dm0a dm0b 8]], w3)"
proof -
  note d = dia_dens_shapes [OF dens]
  let ?e = "map (\<lambda>k. ravel a ! k + contr (vs ! 0) dm0 k
                    - contr (vs ! 1) dm0a k * half - contr (vs ! 2) dm0a k * half
                    - contr (vs ! 3) dm0b k * half - contr (vs ! 4) dm0b k * half) [0..<9]"
  let ?f = "map (\<lambda>k. ?e ! k - contr (vk ! 0) dm0a k - contr (vk ! 1) dm0b k) [0..<9]"
  have g1: "dia_gg1 E (mol magobj) dm0 dm0a dm0b (ravel a) w1 = (Inr ?e, w2)"
    by (rule dia_gg1_ok [OF jk lv vs d(3) d(1) d(2) la])
  have g2: "dia_g1g2 E (mol magobj) dm0a dm0b ?e w2 = (Inr ?f, w3)"
    by (rule dia_g1g2_ok [OF jk2 lk vk d(1) d(2)]) simp
  have "dia E magobj None w = bindE (liftP (reshape33 ?f)) (\<lambda>r. ret (mneg r)) w3"
    by (simp add: dia_def dia_2e_def dens one g1 g2 eff_defs del: upt_Suc One_nat_def)
  also have "\<dots> = (Inr [[- ?f ! 0, - ?f ! 1, - ?f ! 2], [- ?f ! 3, - ?f ! 4, - ?f ! 5],
             [- ?f ! 6, - ?f ! 7, - ?f ! 8]], w3)"
    by (rule neg_reshape33) simp
  finally have r: "dia E magobj None w
      = (Inr [[- ?f ! 0, - ?f ! 1, - ?f ! 2], [- ?f ! 3, - ?f ! 4, - ?f ! 5],
              [- ?f ! 6, - ?f ! 7, - ?f ! 8]], w3)" .
  have fk: "?f ! k = dia_component (ravel a) vs vk dm0 dm0a dm0b k" if "k < 9" for k
    using that by (simp add: dia_component_def del: upt_Suc One_nat_def)
  have F: "?f ! 0 = dia_component (ravel a) vs vk dm0 dm0a dm0b 0"
    "?f ! 1 = dia_component (ravel a) vs vk dm0 dm0a dm0b 1"
    "?f ! 2 = dia_component (ravel a) vs vk dm0 dm0a dm0b 2"
    "?f ! 3 = dia_component (ravel a) vs vk dm0 dm0a dm0b 3"
    "?f ! 4 = dia_component (ravel a) vs vk dm0 dm0a dm0b 4"
    "?f ! 5 = dia_component (ravel a) vs vk dm0 dm0a dm0b 5"
    "?f ! 6 = dia_component (ravel a) vs vk dm0 dm0a dm0b 6"
    "?f ! 7 = dia_component (ravel a) vs vk dm0 dm0a dm0b 7"
    "?f ! 8 = dia_component (ravel a) vs vk dm0 dm0a dm0b 8"
    by (rule fk; simp)+
  from r show ?thesis
    by (simp only: F)
qed

lemma is_mat_tab: "is_mat n m (tab n m f)"
  by (simp add: is_mat_def tab_def list_all_iff)

lemma ncols_tab: "0 < n \<Longrightarrow> ncols (tab n m f) = m"
  by (simp add: ncols_def tab_def upt_conv_Cons)

lemma same_shape_tab: "same_shape (tab n m f) (tab n m g)"
proof (cases "n = 0")
  case True
  then show ?thesis by (simp add: same_shape_def tab_def is_mat_def)
next
  case False
  then show ?thesis
    using is_mat_tab [of n m f] is_mat_tab [of n m g]
    by (simp add: same_shape_def ncols_tab) (simp add: tab_def)
qed

lemma madd_tab: "madd (tab n m f) (tab n m g) = Inr (tab n m (\<lambda>x y. f x y + g x y))"
  unfolding madd_def
  by (simp add: same_shape_tab) (simp add: tab_def map2_map_map cong: map_cong)

lemma msub_tab: "msub (tab n m f) (tab n m g) = Inr (tab n m (\<lambda>x y. f x y - g x y))"
  unfolding msub_def
  by (simp add: same_shape_tab) (simp add: tab_def map2_map_map cong: map_cong)

lemma mconj_tab: "mconj (tab n m f) = tab n m (\<lambda>x y. cnj (f x y))"
  by (simp add: mconj_def tab_def comp_def)

lemma mneg_tab: "mneg (tab n m f) = tab n m (\<lambda>x y. - f x y)"
  by (simp add: mneg_def tab_def comp_def)

lemma map_tab:
  assumes "length h = n" and "length m = k"
  shows "map (\<lambda>hx. map (\<lambda>my. F hx my) m) h = tab n k (\<lambda>x y. F (h ! x) (m ! y))"
  using assms by (simp add: tab_def list_eq_iff_nth_eq)


lemma tab_cong:
  assumes "\<And>x y. x < n \<Longrightarrow> y < m \<Longrightarrow> f x y = g x y"
  shows "tab n m f = tab n m g"
  unfolding tab_def
proof (intro map_cong refl)
  fix x y assume "x \<in> set [0..<n]" and "y \<in> set [0..<m]"
  then show "f x y = g x y"
    by (intro assms) simp_all
qed

lemma is_mat_ncols_le: "is_mat J I A \<Longrightarrow> I \<le> J \<Longrightarrow> ncols A = I"
  by (cases A) (simp_all add: is_mat_def ncols_def)

lemma is_ten3_nth: "is_ten3 X J I h \<Longrightarrow> x < X \<Longrightarrow> is_mat J I (h ! x)"
  by (simp add: is_ten3_def list_all_length)

lemma is_ten3_head:
  assumes "is_ten3 X J I h" and "0 < X"
  shows "(case h of [] \<Rightarrow> 0 | hx # _ \<Rightarrow> length hx) = J"
    and "I \<le> J \<Longrightarrow> (case h of [] \<Rightarrow> 0 | hx # _ \<Rightarrow> ncols hx) = I"
proof -
  from assms obtain hx hs where h: "h = hx # hs" and hx: "is_mat J I hx"
    by (cases h) (auto simp: is_ten3_def)
  from hx show "(case h of [] \<Rightarrow> 0 | hx # _ \<Rightarrow> length hx) = J"
    by (simp add: h is_mat_def)
  assume "I \<le> J"
  with hx show "(case h of [] \<Rightarrow> 0 | hx # _ \<Rightarrow> ncols hx) = I"
    by (simp add: h is_mat_ncols_le)
qed

lemma einsum_yji_xji_ok:
  assumes h: "is_ten3 X J I h" and m: "is_ten3 Y J I m" and X: "0 < X" and IJ: "I \<le> J"
  shows "einsum_yji_xji m h = Inr (tab X Y (c_yji_xji m h))"
proof -
  have lh: "length h = X" and lm: "length m = Y"
    using h m by (simp_all add: is_ten3_def)
  have "map (\<lambda>hx. map (\<lambda>my. sumn J (\<lambda>j. sumn I (\<lambda>i. my ! j ! i * hx ! j ! i))) m) h
      = tab X Y (\<lambda>x y. sumn J (\<lambda>j. sumn I (\<lambda>i. m ! y ! j ! i * h ! x ! j ! i)))"
    by (rule map_tab [OF lh lm])
  also have "\<dots> = tab X Y (c_yji_xji m h)"
  proof (rule tab_cong)
    fix x y assume "x < X" "y < Y"
    with is_ten3_nth [OF h] have hx: "is_mat J I (h ! x)" by simp
    from hx have l: "length (h ! x) = J" by (simp add: is_mat_def)
    from hx IJ have nc: "ncols (h ! x) = I" by (rule is_mat_ncols_le)
    show "sumn J (\<lambda>j. sumn I (\<lambda>i. m ! y ! j ! i * h ! x ! j ! i)) = c_yji_xji m h x y"
      by (simp add: c_yji_xji_def l nc)
  qed
  finally have eq: "map (\<lambda>hx. map (\<lambda>my. sumn J (\<lambda>j. sumn I (\<lambda>i. my ! j ! i * hx ! j ! i))) m) h
      = tab X Y (c_yji_xji m h)" .
  note hd = is_ten3_head(1) [OF h X] is_ten3_head(2) [OF h X IJ]
  show ?thesis
    unfolding einsum_yji_xji_def Let_def hd lh lm eq
    using h m by simp
qed

lemma einsum_yji_xji_i_ok:
  assumes s: "is_ten3 X J (length e) s" and m: "is_ten3 Y J (length e) m" and X: "0 < X"
  shows "einsum_yji_xji_i m s e = Inr (tab X Y (c_yji_xji_i m s e))"
proof -
  have ls: "length s = X" and lm: "length m = Y"
    using s m by (simp_all add: is_ten3_def)
  have "map (\<lambda>sx. map (\<lambda>my. sumn J (\<lambda>j. sumn (length e)
            (\<lambda>i. my ! j ! i * sx ! j ! i * complex_of_real (e ! i)))) m) s
      = tab X Y (\<lambda>x y. sumn J (\<lambda>j. sumn (length e)
            (\<lambda>i. m ! y ! j ! i * s ! x ! j ! i * complex_of_real (e ! i))))"
    by (rule map_tab [OF ls lm])
  also have "\<dots> = tab X Y (c_yji_xji_i m s e)"
  proof (rule tab_cong)
    fix x y assume "x < X" "y < Y"
    with is_ten3_nth [OF s] have "is_mat J (length e) (s ! x)" by simp
    then show "sumn J (\<lambda>j. sumn (length e)
            (\<lambda>i. m ! y ! j ! i * s ! x ! j ! i * complex_of_real (e ! i))) = c_yji_xji_i m s e x y"
      by (simp add: c_yji_xji_i_def is_mat_def)
  qed
  finally have eq: "map (\<lambda>sx. map (\<lambda>my. sumn J (\<lambda>j. sumn (length e)
            (\<lambda>i. my ! j ! i * sx ! j ! i * complex_of_real (e ! i)))) m) s
      = tab X Y (c_yji_xji_i m s e)" .
  note hd = is_ten3_head(1) [OF s X]
  show ?thesis
    unfolding einsum_yji_xji_i_def Let_def hd ls lm eq
    using s m by simp
qed

lemma einsum_xij_yij_ok:
  assumes s: "is_ten3 X I J s" and e: "is_ten3 Y I J e" and X: "0 < X" and JI: "J \<le> I"
  shows "einsum_xij_yij s e = Inr (tab X Y (c_xij_yij s e))"
proof -
  have ls: "length s = X" and le: "length e = Y"
    using s e by (simp_all add: is_ten3_def)
  have "map (\<lambda>sx. map (\<lambda>ey. sumn I (\<lambda>i. sumn J (\<lambda>j. sx ! i ! j * ey ! i ! j))) e) s
      = tab X Y (\<lambda>x y. sumn I (\<lambda>i. sumn J (\<lambda>j. s ! x ! i ! j * e ! y ! i ! j)))"
    by (rule map_tab [OF ls le])
  also have "\<dots> = tab X Y (c_xij_yij s e)"
  proof (rule tab_cong)
    fix x y assume "x < X" "y < Y"
    with is_ten3_nth [OF s] have sx: "is_mat I J (s ! x)" by simp
    from sx have l: "length (s ! x) = I" by (simp add: is_mat_def)
    from sx JI have nc: "ncols (s ! x) = J" by (rule is_mat_ncols_le)
    show "sumn I (\<lambda>i. sumn J (\<lambda>j. s ! x ! i ! j * e ! y ! i ! j)) = c_xij_yij s e x y"
      by (simp add: c_xij_yij_def l nc)
  qed
  finally have eq: "map (\<lambda>sx. map (\<lambda>ey. sumn I (\<lambda>i. sumn J (\<lambda>j. sx ! i ! j * ey ! i ! j))) e) s
      = tab X Y (c_xij_yij s e)" .
  note hd = is_ten3_head(1) [OF s X] is_ten3_head(2) [OF s X JI]
  show ?thesis
    unfolding einsum_xij_yij_def Let_def hd ls le eq
    using s e by simp
qed


lemma set_pick: "set (pick xs msk) \<subseteq> set xs"
  unfolding pick_def by (auto dest: set_zip_leftD)

lemma colmask3_ok:
  assumes s: "is_ten3 X (length msk) I s"
  shows "colmask3 s msk = Inr (map (\<lambda>A. pick A msk) s)"
    and "is_ten3 X (length (filter id msk)) I (map (\<lambda>A. pick A msk) s)"
proof -
  have A: "length A = length msk" "list_all (\<lambda>r. length r = I) A" if "A \<in> set s" for A
    using that s by (simp_all add: is_ten3_def is_mat_def list_all_iff)
  show "colmask3 s msk = Inr (map (\<lambda>A. pick A msk) s)"
    by (simp add: colmask3_def list_all_iff A)
  have "is_mat (length (filter id msk)) I (pick A msk)" if "A \<in> set s" for A
    using A [OF that] set_pick [of A msk]
    by (auto simp: is_mat_def length_pick list_all_iff)
  with s show "is_ten3 X (length (filter id msk)) I (map (\<lambda>A. pick A msk) s)"
    by (simp add: is_ten3_def list_all_iff)
qed

lemma para_contract_ok:
  assumes ha: "is_ten3 3 (length (fst (mo_occ mf)))
                 (length (filter id (occupied (fst (mo_occ mf))))) (fst h1)"
    and hb: "is_ten3 3 (length (snd (mo_occ mf)))
                 (length (filter id (occupied (snd (mo_occ mf))))) (snd h1)"
    and sa: "is_ten3 3 (length (fst (mo_occ mf)))
                 (length (filter id (occupied (fst (mo_occ mf))))) (fst s1)"
    and sb: "is_ten3 3 (length (snd (mo_occ mf)))
                 (length (filter id (occupied (snd (mo_occ mf))))) (snd s1)"
    and ma: "is_ten3 3 (length (fst (mo_occ mf)))
                 (length (filter id (occupied (fst (mo_occ mf))))) (fst mo1)"
    and mb: "is_ten3 3 (length (snd (mo_occ mf)))
                 (length (filter id (occupied (snd (mo_occ mf))))) (snd mo1)"
    and ea: "is_ten3 3 (length (filter id (occupied (fst (mo_occ mf)))))
                 (length (filter id (occupied (fst (mo_occ mf))))) (fst mo_e1)"
    and eb: "is_ten3 3 (length (filter id (occupied (snd (mo_occ mf)))))
                 (length (filter id (occupied (snd (mo_occ mf))))) (snd mo_e1)"
    and la: "length (fst (mo_energy mf)) = length (fst (mo_occ mf))"
    and lb: "length (snd (mo_energy mf)) = length (snd (mo_occ mf))"
  shows "para_contract mf mo1 mo_e1 h1 s1 = Inr (tab 3 3 (para_component mf mo1 mo_e1 h1 s1))"
proof -
  let ?oa = "occupied (fst (mo_occ mf))" and ?ob = "occupied (snd (mo_occ mf))"
  let ?ka = "length (filter id ?oa)" and ?kb = "length (filter id ?ob)"
  have loa: "length ?oa = length (fst (mo_occ mf))" and lob: "length ?ob = length (snd (mo_occ mf))"
    by (simp_all add: occupied_def)
  have ka: "?ka \<le> length (fst (mo_occ mf))" and kb: "?kb \<le> length (snd (mo_occ mf))"
    using length_filter_le [of id ?oa] length_filter_le [of id ?ob] by (simp_all add: loa lob)
  have va: "vmask (fst (mo_energy mf)) ?oa = Inr (pick (fst (mo_energy mf)) ?oa)"
    and vb: "vmask (snd (mo_energy mf)) ?ob = Inr (pick (snd (mo_energy mf)) ?ob)"
    by (simp_all add: vmask_def la lb loa lob)
  have pa: "length (pick (fst (mo_energy mf)) ?oa) = ?ka"
    and pb: "length (pick (snd (mo_energy mf)) ?ob) = ?kb"
    by (simp_all add: length_pick la lb loa lob)
  have e1: "einsum_yji_xji (fst mo1) (fst h1) = Inr (tab 3 3 (c_yji_xji (fst mo1) (fst h1)))"
    by (rule einsum_yji_xji_ok [OF ha ma _ ka]) simp
  have e2: "einsum_yji_xji (snd mo1) (snd h1) = Inr (tab 3 3 (c_yji_xji (snd mo1) (snd h1)))"
    by (rule einsum_yji_xji_ok [OF hb mb _ kb]) simp
  have e3: "einsum_yji_xji_i (fst mo1) (fst s1) (pick (fst (mo_energy mf)) ?oa)
      = Inr (tab 3 3 (c_yji_xji_i (fst mo1) (fst s1) (pick (fst (mo_energy mf)) ?oa)))"
    using sa ma by (intro einsum_yji_xji_i_ok [where J = "length (fst (mo_occ mf))"]) (simp_all add: pa)
  have e4: "einsum_yji_xji_i (snd mo1) (snd s1) (pick (snd (mo_energy mf)) ?ob)
      = Inr (tab 3 3 (c_yji_xji_i (snd mo1) (snd s1) (pick (snd (mo_energy mf)) ?ob)))"
    using sb mb by (intro einsum_yji_xji_i_ok [where J = "length (snd (mo_occ mf))"]) (simp_all add: pb)
  from sa have sa': "is_ten3 3 (length ?oa) ?ka (fst s1)" by (simp add: loa)
  from sb have sb': "is_ten3 3 (length ?ob) ?kb (snd s1)" by (simp add: lob)
  note ca = colmask3_ok [OF sa'] and cb = colmask3_ok [OF sb']
  have e5: "einsum_xij_yij (map (\<lambda>A. pick A ?oa) (fst s1)) (fst mo_e1)
      = Inr (tab 3 3 (c_xij_yij (map (\<lambda>A. pick A ?oa) (fst s1)) (fst mo_e1)))"
    by (rule einsum_xij_yij_ok [OF ca(2) ea]) simp_all
  have e6: "einsum_xij_yij (map (\<lambda>A. pick A ?ob) (snd s1)) (snd mo_e1)
      = Inr (tab 3 3 (c_xij_yij (map (\<lambda>A. pick A ?ob) (snd s1)) (snd mo_e1)))"
    by (rule einsum_xij_yij_ok [OF cb(2) eb]) simp_all
  show ?thesis
    unfolding para_contract_def Let_def bindP_def
    by (simp add: e1 e2 e3 e4 e5 e6 va vb ca(1) cb(1) madd_tab msub_tab mconj_tab mneg_tab)
      (simp add: tab_def para_component_def Let_def)
qed

text \<open>
  Claim C1. Both routines return a 3-by-3 array. With a gauge origin, \<^verbatim>\<open>dia\<close> returns
  the negated nine components of \<^verbatim>\<open>rhf_mag._get_dia_1e\<close>, three to a row; without
  one, the negated nine components of the one-electron term plus the two-electron
  contractions. \<^verbatim>\<open>para\<close> returns the negated 3-by-3 tensor of the contractions of
  \<open>mo1\<close>, \<open>h1\<close>, \<open>s1\<close> and \<open>mo_e1\<close>. The code outside the file is assumed to
  return without raising, with arrays of the documented shapes: nine components from
  \<^verbatim>\<open>_get_dia_1e\<close>, nine components over the atomic orbitals for each density given to
  \<^verbatim>\<open>jk.get_jk\<close>, and three components over (orbitals, occupied orbitals) for \<open>h1\<close>,
  \<open>s1\<close> and \<open>mo1\<close>, over (occupied, occupied) for \<open>mo_e1\<close>.
\<close>

theorem dia_para_return_3x3:
  "(dia_dens (scf magobj) = Inr (dm0, dm0a, dm0b, dme0) \<longrightarrow>
    rhf_get_dia_1e E magobj (Some c) dm0 dme0 w = (Inr a, w1) \<longrightarrow>
    length (ravel a) = 9 \<longrightarrow>
    (\<exists>r. dia E magobj (Some c) w = (Inr r, w1) \<and> is_mat 3 3 r
       \<and> r = [[- ravel a ! 0, - ravel a ! 1, - ravel a ! 2],
               [- ravel a ! 3, - ravel a ! 4, - ravel a ! 5],
               [- ravel a ! 6, - ravel a ! 7, - ravel a ! 8]]))
   \<and> (dia_dens (scf magobj) = Inr (dm0, dm0a, dm0b, dme0) \<longrightarrow>
    rhf_get_dia_1e E magobj None dm0 dme0 w = (Inr a, w1) \<longrightarrow>
    length (ravel a) = 9 \<longrightarrow>
    jk_get_jk E (mol magobj) [dm0, dm0a, dm0a, dm0b, dm0b]
      [''ijkl,ji->s2kl'', ''ijkl,jk->s1il'', ''ijkl,li->s1kj'',
       ''ijkl,jk->s1il'', ''ijkl,li->s1kj''] ''int2e_gg1'' ''s4'' 9 1 w1 = (Inr vs, w2) \<longrightarrow>
    length vs = 5 \<longrightarrow>
    list_all (is_ten3 9 (length (fst (mo_coeff (scf magobj))))
      (length (fst (mo_coeff (scf magobj))))) vs \<longrightarrow>
    jk_get_jk E (mol magobj) [dm0a, dm0b] [''ijkl,jk->s1il'', ''ijkl,jk->s1il'']
      ''int2e_g1g2'' ''aa4'' 9 0 w2 = (Inr vk, w3) \<longrightarrow>
    length vk = 2 \<longrightarrow>
    list_all (is_ten3 9 (length (fst (mo_coeff (scf magobj))))
      (length (fst (mo_coeff (scf magobj))))) vk \<longrightarrow>
    (\<exists>r. dia E magobj None w = (Inr r, w3) \<and> is_mat 3 3 r
       \<and> r = [[- dia_component (ravel a) vs vk dm0 dm0a dm0b 0,
                - dia_component (ravel a) vs vk dm0 dm0a dm0b 1,
                - dia_component (ravel a) vs vk dm0 dm0a dm0b 2],
               [- dia_component (ravel a) vs vk dm0 dm0a dm0b 3,
                - dia_component (ravel a) vs vk dm0 dm0a dm0b 4,
                - dia_component (ravel a) vs vk dm0 dm0a dm0b 5],
               [- dia_component (ravel a) vs vk dm0 dm0a dm0b 6,
                - dia_component (ravel a) vs vk dm0 dm0a dm0b 7,
                - dia_component (ravel a) vs vk dm0 dm0a dm0b 8]]))
   \<and> (time_clock E w = (Inr t0, u1) \<longrightarrow> time_time E u1 = (Inr t1, u2) \<longrightarrow>
    occ_orbs (scf magobj) = Inr orbo \<longrightarrow>
    (case h1 of
       None \<Rightarrow> first_order_fock E K magobj g
                 (Logger (stdout magobj) (verbose magobj)) (t0, t1) orbo
     | Some h \<Rightarrow> ret (h, (t0, t1))) u2 = (Inr (h1', cput1), u3) \<longrightarrow>
    (case s1 of
       None \<Rightarrow> first_order_ovlp K magobj g orbo
     | Some s \<Rightarrow> ret s) u3 = (Inr s1', u4) \<longrightarrow>
    nmr_solve_mo1 E magobj (mo_energy (scf magobj)) (mo_coeff (scf magobj))
      (mo_occ (scf magobj)) h1' s1' (cphf magobj) u4 = (Inr (mo1, mo_e1), u5) \<longrightarrow>
    logger_timer E magobj ''solving mo1 eqn'' cput1 u5 = (Inr cput2, u6) \<longrightarrow>
    is_ten3 3 (length (fst (mo_occ (scf magobj))))
      (length (filter id (occupied (fst (mo_occ (scf magobj)))))) (fst h1') \<longrightarrow>
    is_ten3 3 (length (snd (mo_occ (scf magobj))))
      (length (filter id (occupied (snd (mo_occ (scf magobj)))))) (snd h1') \<longrightarrow>
    is_ten3 3 (length (fst (mo_occ (scf magobj))))
      (length (filter id (occupied (fst (mo_occ (scf magobj)))))) (fst s1') \<longrightarrow>
    is_ten3 3 (length (snd (mo_occ (scf magobj))))
      (length (filter id (occupied (snd (mo_occ (scf magobj)))))) (snd s1') \<longrightarrow>
    is_ten3 3 (length (fst (mo_occ (scf magobj))))
      (length (filter id (occupied (fst (mo_occ (scf magobj)))))) (fst mo1) \<longrightarrow>
    is_ten3 3 (length (snd (mo_occ (scf magobj))))
      (length (filter id (occupied (snd (mo_occ (scf magobj)))))) (snd mo1) \<longrightarrow>
    is_ten3 3 (length (filter id (occupied (fst (mo_occ (scf magobj))))))
      (length (filter id (occupied (fst (mo_occ (scf magobj)))))) (fst mo_e1) \<longrightarrow>
    is_ten3 3 (length (filter id (occupied (snd (mo_occ (scf magobj))))))
      (length (filter id (occupied (snd (mo_occ (scf magobj)))))) (snd mo_e1) \<longrightarrow>
    length (fst (mo_energy (scf magobj))) = length (fst (mo_occ (scf magobj))) \<longrightarrow>
    length (snd (mo_energy (scf magobj))) = length (snd (mo_occ (scf magobj))) \<longrightarrow>
    (\<exists>r. para E K magobj g h1 s1 v w = (Inr r, u6) \<and> is_mat 3 3 r
       \<and> r = tab 3 3 (para_component (scf magobj) mo1 mo_e1 h1' s1')))"
proof (intro conjI impI)
  assume "dia_dens (scf magobj) = Inr (dm0, dm0a, dm0b, dme0)"
    and "rhf_get_dia_1e E magobj (Some c) dm0 dme0 w = (Inr a, w1)"
    and "length (ravel a) = 9"
  then show "\<exists>r. dia E magobj (Some c) w = (Inr r, w1) \<and> is_mat 3 3 r
       \<and> r = [[- ravel a ! 0, - ravel a ! 1, - ravel a ! 2],
               [- ravel a ! 3, - ravel a ! 4, - ravel a ! 5],
               [- ravel a ! 6, - ravel a ! 7, - ravel a ! 8]]"
    by (simp add: dia_Some_ok is_mat_def)
next
  assume "dia_dens (scf magobj) = Inr (dm0, dm0a, dm0b, dme0)"
    and "rhf_get_dia_1e E magobj None dm0 dme0 w = (Inr a, w1)"
    and "length (ravel a) = 9"
    and "jk_get_jk E (mol magobj) [dm0, dm0a, dm0a, dm0b, dm0b]
      [''ijkl,ji->s2kl'', ''ijkl,jk->s1il'', ''ijkl,li->s1kj'',
       ''ijkl,jk->s1il'', ''ijkl,li->s1kj''] ''int2e_gg1'' ''s4'' 9 1 w1 = (Inr vs, w2)"
    and "length vs = 5"
    and "list_all (is_ten3 9 (length (fst (mo_coeff (scf magobj))))
      (length (fst (mo_coeff (scf magobj))))) vs"
    and "jk_get_jk E (mol magobj) [dm0a, dm0b] [''ijkl,jk->s1il'', ''ijkl,jk->s1il'']
      ''int2e_g1g2'' ''aa4'' 9 0 w2 = (Inr vk, w3)"
    and "length vk = 2"
    and "list_all (is_ten3 9 (length (fst (mo_coeff (scf magobj))))
      (length (fst (mo_coeff (scf magobj))))) vk"
  then have "dia E magobj None w
     = (Inr [[- dia_component (ravel a) vs vk dm0 dm0a dm0b 0,
              - dia_component (ravel a) vs vk dm0 dm0a dm0b 1,
              - dia_component (ravel a) vs vk dm0 dm0a dm0b 2],
             [- dia_component (ravel a) vs vk dm0 dm0a dm0b 3,
              - dia_component (ravel a) vs vk dm0 dm0a dm0b 4,
              - dia_component (ravel a) vs vk dm0 dm0a dm0b 5],
             [- dia_component (ravel a) vs vk dm0 dm0a dm0b 6,
              - dia_component (ravel a) vs vk dm0 dm0a dm0b 7,
              - dia_component (ravel a) vs vk dm0 dm0a dm0b 8]], w3)"
    by (rule dia_None_ok)
  then show "\<exists>r. dia E magobj None w = (Inr r, w3) \<and> is_mat 3 3 r
       \<and> r = [[- dia_component (ravel a) vs vk dm0 dm0a dm0b 0,
                - dia_component (ravel a) vs vk dm0 dm0a dm0b 1,
                - dia_component (ravel a) vs vk dm0 dm0a dm0b 2],
               [- dia_component (ravel a) vs vk dm0 dm0a dm0b 3,
                - dia_component (ravel a) vs vk dm0 dm0a dm0b 4,
                - dia_component (ravel a) vs vk dm0 dm0a dm0b 5],
               [- dia_component (ravel a) vs vk dm0 dm0a dm0b 6,
                - dia_component (ravel a) vs vk dm0 dm0a dm0b 7,
                - dia_component (ravel a) vs vk dm0 dm0a dm0b 8]]"
    by (simp add: is_mat_def)
next
  assume run: "time_clock E w = (Inr t0, u1)" "time_time E u1 = (Inr t1, u2)"
    "occ_orbs (scf magobj) = Inr orbo"
    "(case h1 of
       None \<Rightarrow> first_order_fock E K magobj g
                 (Logger (stdout magobj) (verbose magobj)) (t0, t1) orbo
     | Some h \<Rightarrow> ret (h, (t0, t1))) u2 = (Inr (h1', cput1), u3)"
    "(case s1 of
       None \<Rightarrow> first_order_ovlp K magobj g orbo
     | Some s \<Rightarrow> ret s) u3 = (Inr s1', u4)"
    "nmr_solve_mo1 E magobj (mo_energy (scf magobj)) (mo_coeff (scf magobj))
      (mo_occ (scf magobj)) h1' s1' (cphf magobj) u4 = (Inr (mo1, mo_e1), u5)"
    "logger_timer E magobj ''solving mo1 eqn'' cput1 u5 = (Inr cput2, u6)"
  assume "is_ten3 3 (length (fst (mo_occ (scf magobj))))
      (length (filter id (occupied (fst (mo_occ (scf magobj)))))) (fst h1')"
    and "is_ten3 3 (length (snd (mo_occ (scf magobj))))
      (length (filter id (occupied (snd (mo_occ (scf magobj)))))) (snd h1')"
    and "is_ten3 3 (length (fst (mo_occ (scf magobj))))
      (length (filter id (occupied (fst (mo_occ (scf magobj)))))) (fst s1')"
    and "is_ten3 3 (length (snd (mo_occ (scf magobj))))
      (length (filter id (occupied (snd (mo_occ (scf magobj)))))) (snd s1')"
    and "is_ten3 3 (length (fst (mo_occ (scf magobj))))
      (length (filter id (occupied (fst (mo_occ (scf magobj)))))) (fst mo1)"
    and "is_ten3 3 (length (snd (mo_occ (scf magobj))))
      (length (filter id (occupied (snd (mo_occ (scf magobj)))))) (snd mo1)"
    and "is_ten3 3 (length (filter id (occupied (fst (mo_occ (scf magobj))))))
      (length (filter id (occupied (fst (mo_occ (scf magobj)))))) (fst mo_e1)"
    and "is_ten3 3 (length (filter id (occupied (snd (mo_occ (scf magobj))))))
      (length (filter id (occupied (snd (mo_occ (scf magobj)))))) (snd mo_e1)"
    and "length (fst (mo_energy (scf magobj))) = length (fst (mo_occ (scf magobj)))"
    and "length (snd (mo_energy (scf magobj))) = length (snd (mo_occ (scf magobj)))"
  then have c: "para_contract (scf magobj) mo1 mo_e1 h1' s1'
      = Inr (tab 3 3 (para_component (scf magobj) mo1 mo_e1 h1' s1'))"
    by (rule para_contract_ok)
  have "para E K magobj g h1 s1 v w
      = (Inr (tab 3 3 (para_component (scf magobj) mo1 mo_e1 h1' s1')), u6)"
    unfolding para_def Let_def using run by (simp add: eff_defs c)
  then show "\<exists>r. para E K magobj g h1 s1 v w = (Inr r, u6) \<and> is_mat 3 3 r
       \<and> r = tab 3 3 (para_component (scf magobj) mo1 mo_e1 h1' s1')"
    by (simp add: is_mat_tab)
qed

theorem dia_para_return_3x3_witness:
  "dia ex_E ex_mag (Some (0, 0, 1)) 0
     = (Inr [[- 1, - 2, - 3], [- 4, - 5, - 6], [- 7, - 8, - 9]], 1)
   \<and> dia ex_E ex_mag None 0 = (Inr [[23, 22, 21], [20, 19, 18], [17, 16, 15]], 3)
   \<and> para ex_E ex_K ex_mag None None None PyNone 0
     = (Inr [[- 246, - 194, - 1182], [- 186, - 150, - 898], [- 610, - 476, - 3010]], 7)"
proof -
  note T = dia_para_return_3x3
  define vs :: "ten3 list" where "vs = map (\<lambda>d. [d, d, d, d, d, d, d, d, d])
    [[[2, 2], [2, 4]], [[1, 0], [0, 0]], [[1, 0], [0, 0]], [[1, 2], [2, 4]], [[1, 2], [2, 4]]]"
  define vk :: "ten3 list" where "vk = map (\<lambda>d. [d, d, d, d, d, d, d, d, d])
    [[[1, 0], [0, 0]], [[1, 2], [2, 4]]]"
  have dens: "dia_dens (scf ex_mag)
      = Inr ([[2, 2], [2, 4]], [[1, 0], [0, 0]], [[1, 2], [2, 4]], [[- 4, - 6], [- 6, - 12]])"
    by (simp add: ex_defs array_defs)
  have one: "rhf_get_dia_1e ex_E ex_mag g [[2, 2], [2, 4]] [[- 4, - 6], [- 6, - 12]] 0
      = (Inr [[1, 2, 3], [4, 5, 6], [7, 8, 9]], 1)" for g
    by (simp add: ex_defs)
  have la: "length (ravel [[1, 2, 3], [4, 5, 6], [7, 8, 9 :: complex]]) = 9"
    by (simp add: ravel_def)
  have jk: "jk_get_jk ex_E (mol ex_mag)
      [[[2, 2], [2, 4]], [[1, 0], [0, 0]], [[1, 0], [0, 0]], [[1, 2], [2, 4]], [[1, 2], [2, 4]]]
      [''ijkl,ji->s2kl'', ''ijkl,jk->s1il'', ''ijkl,li->s1kj'',
       ''ijkl,jk->s1il'', ''ijkl,li->s1kj''] ''int2e_gg1'' ''s4'' 9 1 1 = (Inr vs, 2)"
    by (simp add: ex_defs vs_def)
  have jk2: "jk_get_jk ex_E (mol ex_mag) [[[1, 0], [0, 0]], [[1, 2], [2, 4]]]
      [''ijkl,jk->s1il'', ''ijkl,jk->s1il''] ''int2e_g1g2'' ''aa4'' 9 0 2 = (Inr vk, 3)"
    by (simp add: ex_defs vk_def)
  have lv: "length vs = 5" and lk: "length vk = 2"
    by (simp_all add: vs_def vk_def)
  have sv: "list_all (is_ten3 9 (length (fst (mo_coeff (scf ex_mag))))
      (length (fst (mo_coeff (scf ex_mag))))) vs"
    and sk: "list_all (is_ten3 9 (length (fst (mo_coeff (scf ex_mag))))
      (length (fst (mo_coeff (scf ex_mag))))) vk"
    by (simp_all add: vs_def vk_def ex_defs array_defs)
  have a: "dia ex_E ex_mag (Some (0, 0, 1)) 0
     = (Inr [[- 1, - 2, - 3], [- 4, - 5, - 6], [- 7, - 8, - 9]], 1)"
    using T [THEN conjunct1, rule_format, OF dens one la]
    by (auto simp: ravel_def)
  have b: "dia ex_E ex_mag None 0 = (Inr [[23, 22, 21], [20, 19, 18], [17, 16, 15]], 3)"
    using T [THEN conjunct2, THEN conjunct1, rule_format, OF dens one la jk lv sv jk2 lk sk]
    by (auto simp: ravel_def dia_component_def contr_def vs_def vk_def array_defs)
  have c0: "time_clock ex_E 0 = (Inr 0, 1)" and c1: "time_time ex_E 1 = (Inr 1, 2)"
    by (simp_all add: ex_defs)
  have occ: "occ_orbs (scf ex_mag) = Inr ([[1], [0]], [[1], [2]])"
    by (simp add: ex_defs array_defs)
  have h1: "(case None of
              None \<Rightarrow> first_order_fock ex_E ex_K ex_mag None
                        (Logger (stdout ex_mag) (verbose ex_mag)) (0, 1) ([[1], [0]], [[1], [2]])
            | Some h \<Rightarrow> ret (h, (0, 1))) 2
           = (Inr (([[[1], [2]], [[1], [2]], [[1], [2]]],
                    [[[5], [2]], [[4], [1]], [[25], [10]]]), (0, 1)), 4)"
    by (simp add: first_order_fock_def ex_defs eff_defs array_defs)
  have s1: "(case None of
              None \<Rightarrow> first_order_ovlp ex_K ex_mag None ([[1], [0]], [[1], [2]])
            | Some s \<Rightarrow> ret s) 4
           = (Inr ([[[1], [2]], [[0], [1]], [[1], [3]]],
                   [[[5], [2]], [[4], [1]], [[9], [3]]]), 5)"
    by (simp add: first_order_ovlp_def ex_defs eff_defs array_defs)
  have sol: "nmr_solve_mo1 ex_E ex_mag (mo_energy (scf ex_mag)) (mo_coeff (scf ex_mag))
      (mo_occ (scf ex_mag))
      ([[[1], [2]], [[1], [2]], [[1], [2]]], [[[5], [2]], [[4], [1]], [[25], [10]]])
      ([[[1], [2]], [[0], [1]], [[1], [3]]], [[[5], [2]], [[4], [1]], [[9], [3]]])
      (cphf ex_mag) 5
      = (Inr (([[[1], [2]], [[1], [2]], [[1], [2]]], [[[5], [2]], [[4], [1]], [[25], [10]]]),
              ([[[1]], [[2]], [[3]]], [[[1]], [[0]], [[- 1]]])), 6)"
    by (simp add: ex_defs)
  have tm: "logger_timer ex_E ex_mag ''solving mo1 eqn'' (0, 1) 6 = (Inr (0, 1), 7)"
    by (simp add: ex_defs)
  have c: "para ex_E ex_K ex_mag None None None PyNone 0
     = (Inr [[- 246, - 194, - 1182], [- 186, - 150, - 898], [- 610, - 476, - 3010]], 7)"
    using T [THEN conjunct2, THEN conjunct2, rule_format, OF c0 c1 occ h1 s1 sol tm,
        where v = PyNone]
    by (auto simp: ex_defs array_defs tab_def para_component_def c_yji_xji_def c_yji_xji_i_def
        c_xij_yij_def numeral_3_eq_3)
  from a b c show ?thesis
    by blast
qed

end
